theory Spec2Isabelle
  imports Complex_Main
begin

section \<open>The notebook \<^verbatim>\<open>examples/esmif.ipynb\<close>\<close>

text \<open>
  The repository consists of one Jupyter notebook with three code cells. The first
  cell sets up the environment and loads the pretrained ESM-IF1 model, the second
  scores eight literal sequences against one structure file, the third holds a
  sampling loop of which every line is a comment.

  The development has two layers. The literals and the text of the cells are kept as
  data, so that statements about the notebook's text (what is commented out, which
  constructs occur) can be stated and evaluated. The cells themselves are embedded as
  state transformers over the part of the Python interpreter they touch, with every
  call that leaves the notebook taken from a record of external behaviours.
\<close>

subsection \<open>Literals of the second cell\<close>

definition pdb_path :: string where
  "pdb_path = ''../pdbs/NbALFA_ALFAtag_AF3.pdb''"

definition target_seq_list :: "string list" where
  "target_seq_list =
    [''SGEVQLQESGGGLVQPGGSLRLSCTASGVTISALNAMAMGWYRQAPGERRVMVAAVSERGNAMYRESVQGRFTVTRDFTNKMVSLQMDNLKPEDTAVYYCHVLEDRVDSFHDYWGQGTQVTVSS'',
     ''KGQVQLQQSAELALARMSCKASYTFTSQAPGKGLEWVSAITWNELARPGASVKMSGHIDYADSVKGRFSGHIDYADSVKGRFTIPGASVKMSGTEKMSCTAVYYCAKYPGQVQLQQSAELAASS'',
     ''ARPGASVNELARPGASVKMSGHIDYAKMSCKASGYTFTSQAPGLEWVSAITWNELKASGYFTSQAPLQMLYLAVYYCAKPYYGSHVWGAVSAITWGVQLYAVAKYSRDNSKNTTVTVGTTVTVS'',
     ''PGLRAEDTAVYYCAKYPYELARPGYTFTSQAPGKGLGSHWYFDVWWYFDLYQMNSLRATIRDNSKNTWVSEVWGAGTASKMSCKASGGSVKMEDTAVYYCAKYPYYGSHGAGTDNSKNTVVTVS'',
     ''ASVRPGLYLQMNSGQVQLQQSALQQSAELYYGSHWYFDVWGAGTTVHIDYADSVKGRFTISRDNSKNTLYLQMNSLRAEDTDVWGAGTTVTEWVNSLRAEDARPGASVKMSGTDSVKGRFTISS'',
     ''SGEVQLQESGGGLVQPGGSLRLSCTASGVTISALNAMAMGWYRQAPGERRVMVAAVSERGNAMYRESVQGRFTVTRDFTNKMVSLQMDNLKPEDTAVYYCHVLEDRVDSFHDYWGQGTQVTVSS'',
     ''SGTVQLTESGGGTVAPGGSLTLSAKATGVTISALNAMAWGWYRQRPGERRVAVAAVSERGNAMYREDVRGRWTITRDAANKTVSLEMRDLRPEDTATYYPHVLEDRVDSFHDYWGAGVPVTVVP'',
     ''IGPVQLVESGGGKVEPGGSLTLEMEAKGVTISALNAMAMGWYRQRPGERRVMVAAVSERGNAMYREDVRGRFRVTKNQRDRRVSLKMNNLKPEDSATYFAHVLEDRVDSFHDYWGKGSVVSVRP'']"

subsection \<open>Text of the cells\<close>

text \<open>
  Each cell is the list of its source lines, without the line terminators. The eight
  sequence lines of the second cell are the elements of \<^const>\<open>target_seq_list\<close>, each
  indented by four blanks, quoted and followed by a comma, and its first line quotes
  \<^const>\<open>pdb_path\<close>; they are built from the two constants rather than repeated.
\<close>

definition cell1_source :: "string list" where
  \<open>cell1_source =
    [''import os'',
     ''import sys'',
     '''',
     ''sys.path.append("..")'',
     '''',
     ''import esm'',
     ''import numpy as np'',
     ''import pandas as pd'',
     ''import torch'',
     ''import torch_geometric'',
     ''import torch_sparse'',
     ''from torch_geometric.nn import MessagePassing'',
     ''from tqdm.auto import tqdm'',
     '''',
     ''from models.sample_esmif import sample_complex'',
     ''from models.score_esmif import score_complex'',
     '''',
     ''device = torch.device("cuda" if torch.cuda.is_available() else "cpu")'',
     '''',
     ''esmif_model, esmif_alphabet = esm.pretrained.esm_if1_gvp4_t16_142M_UR50()'',
     ''esmif_model = esmif_model.eval().to(device)'']\<close>

definition cell2_source :: "string list" where
  \<open>cell2_source =
    [''pdb_path = "'' @ pdb_path @ ''"'',
     ''target_seq_list = [''] @
    map (\<lambda>q. ''    "'' @ q @ ''",'') target_seq_list @
    ['']'',
     ''entropy, loss, perplexity = score_complex('',
     ''    esmif_model,'',
     ''    esmif_alphabet,'',
     ''    pdb_path,'',
     ''    target_seq_list=target_seq_list,'',
     '')'',
     ''entropy.shape, loss, perplexity'']\<close>

definition cell3_source :: "string list" where
  \<open>cell3_source =
    [''# pdb_path = "../pdbs/NbALFA_AF3.pdb"'',
     ''# output_path = "../results/sampled_monomer_esm.fasta"'',
     ''# redisigned_residues = "1 3 4 5 7 8 9 13 14 15 19 20 21 23 24 25 26 27 39 41 44 45 46 48 50 52 53 67 68 69 72 73 74 75 76 77 78 79 80 81 82 83 84 85 86 88 89 91 92 93 95 97 99 100 102 114 116 118 119 120 121 123 124"'',
     '''',
     ''# for batch_num in tqdm(range(2048)):'',
     ''#     sample_complex('',
     ''#         esmif_model,'',
     ''#         esmif_alphabet,'',
     ''#         pdb_path,'',
     ''#         output_path,'',
     ''#         target_chain_id="A",'',
     ''#         batch_size=32,'',
     ''#         redesigned_residues=redisigned_residues,'',
     ''#         omit_aa="C",'',
     ''#         temperature=1.0,'',
     ''#         padding_length=10,'',
     ''#         index_offset=batch_num * 32,'',
     ''#     )'']\<close>

definition notebook_source :: "string list" where
  "notebook_source = cell1_source @ cell2_source @ cell3_source"

text \<open>
  Python's lexical rule for the lines of these cells, none of which lies inside a
  string literal that spans lines: a line is blank when only white space is on it, and
  a comment when its first character after the indentation is \<open>#\<close>. Neither kind
  produces a token, so neither is executed.
\<close>

definition lstrip :: "string \<Rightarrow> string" where
  "lstrip l = dropWhile (\<lambda>c. c = CHR '' '' \<or> c = CHR 0x09) l"

definition is_blank :: "string \<Rightarrow> bool" where
  "is_blank l = (lstrip l = [])"

definition is_comment :: "string \<Rightarrow> bool" where
  "is_comment l = (case lstrip l of [] \<Rightarrow> False | c # _ \<Rightarrow> c = CHR ''#'')"


fun is_prefix :: "'a list \<Rightarrow> 'a list \<Rightarrow> bool" where
  "is_prefix [] ys = True"
| "is_prefix (x # xs) [] = False"
| "is_prefix (x # xs) (y # ys) = (x = y \<and> is_prefix xs ys)"


fun mentions :: "string \<Rightarrow> string \<Rightarrow> bool" where
  "mentions p [] = (p = [])"
| "mentions p (c # cs) = (is_prefix p (c # cs) \<or> mentions p cs)"








section \<open>Execution model\<close>

subsection \<open>Values\<close>

datatype device = Cuda | Cpu

text \<open>
  A network object (\<open>torch.nn.Module\<close>): its parameters, its mode flag and the device
  its parameters live on. The parameters are opaque here; nothing in the notebook
  computes with them.
\<close>

record model =
  weights :: "nat list"
  training :: bool
  on_device :: device

type_synonym alphabet = "string list"

datatype tensor = Tensor (shape: "nat list") (entries: "real list")

datatype error =
    NameError string
  | AttributeError string
  | TypeError
  | ValueError
  | ModuleNotFoundError string
  | FileNotFoundError string
  | KeyError string
  | RuntimeError string

datatype pyval =
    PyStr string
  | PyFloat real
  | PyList "pyval list"
  | PyTuple "pyval list"
  | PyDevice device
  | PyModel model
  | PyAlphabet alphabet
  | PyTensor tensor
  | PySize "nat list"
  | PyModule string
  | PyImported string string

subsection \<open>What lies outside the notebook\<close>

text \<open>
  The result of the scoring routine as the notebook names its three parts.
\<close>

record score =
  entropy :: tensor
  loss :: real
  perplexity :: real

text \<open>
  Everything the notebook calls is defined elsewhere: the import machinery, the CUDA
  query, the loader of the pretrained checkpoint, the transfer of parameters to a
  device and the scoring routine. Their behaviour is a parameter of the model, and
  each of them but the CUDA query may raise.

  \<open>importer p ms m x\<close> is the import machinery run for the module \<open>m\<close> (and, in the
  \<open>from\<close> form, for the name \<open>x\<close> in it) when the search path is \<open>p\<close> and the modules
  \<open>ms\<close> are loaded. It gives the further modules that are loaded on the way (parent
  packages, dependencies) and the exception raised, if any. \<open>to_error m d\<close> is the
  exception, if any, that moving the parameters of \<open>m\<close> to the device \<open>d\<close> raises.

  What such a call does to the world outside the interpreter is not visible in the
  notebook either: the files it writes and the systems it contacts are given by the
  \<open>_effects\<close> fields, one for each kind of call and with the arguments of the call.
\<close>

datatype effect = WritesFile string | Contacts string

record world =
  importer ::
    "string list \<Rightarrow> string list \<Rightarrow> string \<Rightarrow> string option \<Rightarrow> string list \<times> error option"
  import_effects ::
    "string list \<Rightarrow> string list \<Rightarrow> string \<Rightarrow> string option \<Rightarrow> effect list"
  cuda_is_available :: bool
  esm_if1_gvp4_t16_142M_UR50 :: "error + model \<times> alphabet"
  loader_effects :: "effect list"
  to_error :: "model \<Rightarrow> device \<Rightarrow> error option"
  transfer_effects :: "model \<Rightarrow> device \<Rightarrow> effect list"
  scorer :: "model \<Rightarrow> alphabet \<Rightarrow> string \<Rightarrow> string list \<Rightarrow> error + score"
  scorer_effects :: "model \<Rightarrow> alphabet \<Rightarrow> string \<Rightarrow> string list \<Rightarrow> effect list"

text \<open>
  The calls and imports a run performs, in the order it performs them. A call is
  recorded when it is made, before its outcome is known.
\<close>

datatype event =
    Import string
  | FromImport string string
  | SysPathAppend string
  | CudaIsAvailable
  | TorchDevice string
  | LoadPretrained string
  | ModuleEval
  | ModuleTo device
  | ScoreComplex model alphabet string "string list"
  | SampleComplex string string

subsection \<open>Interpreter state\<close>

text \<open>
  \<open>sys_path\<close> and \<open>sys_modules\<close> belong to the interpreter process as a whole;
  \<open>namespace\<close> holds the names the notebook binds; \<open>out\<close> is the value of the last
  expression statement, which the notebook front end displays; \<open>trace\<close> is the record
  of calls, kept for the statements below; \<open>effects\<close> is what the run has done so far
  to the world outside the interpreter.
\<close>

record state =
  sys_path :: "string list"
  sys_modules :: "string list"
  namespace :: "string \<rightharpoonup> pyval"
  out :: "pyval option"
  trace :: "event list"
  effects :: "effect list"

text \<open>
  A statement either completes in a new state or raises; an exception carries the
  state at the point where it was raised.
\<close>

type_synonym outcome = "(error \<times> state) + state"

type_synonym stmt = "state \<Rightarrow> outcome"

definition emit :: "event \<Rightarrow> state \<Rightarrow> state" where
  "emit ev s = s\<lparr>trace := trace s @ [ev]\<rparr>"

definition affect :: "effect list \<Rightarrow> state \<Rightarrow> state" where
  "affect efs s = s\<lparr>effects := effects s @ efs\<rparr>"

definition bind_name :: "string \<Rightarrow> pyval \<Rightarrow> state \<Rightarrow> state" where
  "bind_name x v s = s\<lparr>namespace := (namespace s)(x \<mapsto> v)\<rparr>"

definition lookup_name :: "string \<Rightarrow> state \<Rightarrow> error + pyval" where
  "lookup_name x s = (case namespace s x of None \<Rightarrow> Inl (NameError x) | Some v \<Rightarrow> Inr v)"

text \<open>Statements run in sequence; the first exception ends the run.\<close>

fun run_stmts :: "stmt list \<Rightarrow> state \<Rightarrow> outcome" where
  "run_stmts [] s = Inr s"
| "run_stmts (f # fs) s = (case f s of Inl x \<Rightarrow> Inl x | Inr s' \<Rightarrow> run_stmts fs s')"

definition final :: "outcome \<Rightarrow> state" where
  "final r = (case r of Inl (e, s) \<Rightarrow> s | Inr s \<Rightarrow> s)"

subsection \<open>Library behaviour the notebook relies on\<close>

text \<open>
  \<open>torch.device(name)\<close> builds a device object from its name and does not look at
  the hardware. Only the two names the notebook can pass are given a device; any
  other string is treated as rejected.
\<close>

definition torch_device :: "string \<Rightarrow> error + device" where
  "torch_device name =
     (if name = ''cuda'' then Inr Cuda
      else if name = ''cpu'' then Inr Cpu
      else Inl (RuntimeError name))"

text \<open>
  \<open>Module.eval()\<close> clears the training flag and returns the module;
  \<open>Module.to(device)\<close> moves the parameters and returns the module, or raises what
  the transfer raises.
\<close>

definition module_eval :: "model \<Rightarrow> model" where
  "module_eval m = m\<lparr>training := False\<rparr>"

definition module_to :: "world \<Rightarrow> model \<Rightarrow> device \<Rightarrow> error + model" where
  "module_to w m d =
     (case to_error w m d of Some e \<Rightarrow> Inl e | None \<Rightarrow> Inr (m\<lparr>on_device := d\<rparr>))"

subsection \<open>The repository's scoring helper\<close>

text \<open>
  Modelled from the spec: \<open>models/score_esmif.py\<close>, which defines \<open>score_complex\<close>, is
  not among the sources. The specification says that calling it with the structure and
  the sequences returns an entropy tensor, a loss scalar and a perplexity scalar, and
  that the network it is given is frozen. So the helper is the external scoring
  routine with its result packed as a Python 3-tuple, and it leaves the network as it
  was.
\<close>

definition score_complex ::
  "world \<Rightarrow> model \<Rightarrow> alphabet \<Rightarrow> string \<Rightarrow> string list \<Rightarrow> error + pyval" where
  "score_complex w m a p qs =
     (case scorer w m a p qs of
        Inl e \<Rightarrow> Inl e
      | Inr r \<Rightarrow> Inr (PyTuple [PyTensor (entropy r), PyFloat (loss r), PyFloat (perplexity r)]))"

subsection \<open>Statement forms\<close>

text \<open>
  Modules that an import has loaded are entered in the table of loaded modules, each
  once.
\<close>

definition add_modules :: "string list \<Rightarrow> string list \<Rightarrow> string list" where
  "add_modules ms tab = tab @ filter (\<lambda>m. m \<notin> set tab) (remdups ms)"

definition loaded :: "string list \<Rightarrow> state \<Rightarrow> state" where
  "loaded ms s = s\<lparr>sys_modules := add_modules ms (sys_modules s)\<rparr>"

text \<open>
  \<open>import m as x\<close>; \<open>import m\<close> is the case where \<open>x\<close> is \<open>m\<close>. A module whose import
  raises is not entered in the table; what was loaded before the exception stays.
\<close>

definition import_as :: "world \<Rightarrow> string \<Rightarrow> string \<Rightarrow> stmt" where
  "import_as w m x s =
     (let s1 = affect (import_effects w (sys_path s) (sys_modules s) m None)
                 (emit (Import m) s) in
      case importer w (sys_path s) (sys_modules s) m None of
        (ms, Some e) \<Rightarrow> Inl (e, loaded ms s1)
      | (ms, None) \<Rightarrow> Inr (bind_name x (PyModule m) (loaded (ms @ [m]) s1)))"

definition import_module :: "world \<Rightarrow> string \<Rightarrow> stmt" where
  "import_module w m = import_as w m m"

text \<open>\<open>from m import x\<close>.\<close>

definition from_import :: "world \<Rightarrow> string \<Rightarrow> string \<Rightarrow> stmt" where
  "from_import w m x s =
     (let s1 = affect (import_effects w (sys_path s) (sys_modules s) m (Some x))
                 (emit (FromImport m x) s) in
      case importer w (sys_path s) (sys_modules s) m (Some x) of
        (ms, Some e) \<Rightarrow> Inl (e, loaded ms s1)
      | (ms, None) \<Rightarrow> Inr (bind_name x (PyImported m x) (loaded (ms @ [m]) s1)))"

text \<open>
  A name used as a module: unbound it raises \<open>NameError\<close>; bound to anything but the
  module it raises \<open>AttributeError\<close> at the attribute access that follows.
\<close>

definition use_module :: "string \<Rightarrow> string \<Rightarrow> state \<Rightarrow> error option" where
  "use_module x attr s =
     (case lookup_name x s of
        Inl e \<Rightarrow> Some e
      | Inr v \<Rightarrow> if v = PyModule x then None else Some (AttributeError attr))"

text \<open>\<open>sys.path.append(p)\<close>.\<close>

definition sys_path_append :: "string \<Rightarrow> stmt" where
  "sys_path_append p s =
     (case use_module ''sys'' ''path'' s of
        Some e \<Rightarrow> Inl (e, s)
      | None \<Rightarrow> Inr (emit (SysPathAppend p) (s\<lparr>sys_path := sys_path s @ [p]\<rparr>)))"

text \<open>\<open>device = torch.device("cuda" if torch.cuda.is_available() else "cpu")\<close>.\<close>

definition assign_device :: "world \<Rightarrow> stmt" where
  "assign_device w s =
     (case use_module ''torch'' ''device'' s of
        Some e \<Rightarrow> Inl (e, s)
      | None \<Rightarrow>
          (let s1 = emit CudaIsAvailable s;
               name = (if cuda_is_available w then ''cuda'' else ''cpu'');
               s2 = emit (TorchDevice name) s1
           in case torch_device name of
                Inl e \<Rightarrow> Inl (e, s2)
              | Inr d \<Rightarrow> Inr (bind_name ''device'' (PyDevice d) s2)))"

text \<open>\<open>esmif_model, esmif_alphabet = esm.pretrained.esm_if1_gvp4_t16_142M_UR50()\<close>.\<close>

definition load_pretrained :: "world \<Rightarrow> stmt" where
  "load_pretrained w s =
     (case use_module ''esm'' ''pretrained'' s of
        Some e \<Rightarrow> Inl (e, s)
      | None \<Rightarrow>
          (let s1 = affect (loader_effects w)
                      (emit (LoadPretrained ''esm_if1_gvp4_t16_142M_UR50'') s)
           in case esm_if1_gvp4_t16_142M_UR50 w of
                Inl e \<Rightarrow> Inl (e, s1)
              | Inr (m, a) \<Rightarrow>
                  Inr (bind_name ''esmif_alphabet'' (PyAlphabet a)
                        (bind_name ''esmif_model'' (PyModel m) s1))))"

text \<open>Reading a name whose value must be of one kind.\<close>

definition get_model :: "string \<Rightarrow> state \<Rightarrow> error + model" where
  "get_model x s =
     (case lookup_name x s of
        Inl e \<Rightarrow> Inl e
      | Inr v \<Rightarrow> (case v of PyModel m \<Rightarrow> Inr m | _ \<Rightarrow> Inl (AttributeError ''eval'')))"

definition get_device :: "string \<Rightarrow> state \<Rightarrow> error + device" where
  "get_device x s =
     (case lookup_name x s of
        Inl e \<Rightarrow> Inl e
      | Inr v \<Rightarrow> (case v of PyDevice d \<Rightarrow> Inr d | _ \<Rightarrow> Inl TypeError))"

text \<open>
  \<open>esmif_model = esmif_model.eval().to(device)\<close>. Both methods change the network
  object in place and return it, so the name refers to the changed network as soon as
  \<open>eval()\<close> has run, also when the transfer that follows raises.
\<close>

definition eval_and_move :: "world \<Rightarrow> stmt" where
  "eval_and_move w s =
     (case get_model ''esmif_model'' s of
        Inl e \<Rightarrow> Inl (e, s)
      | Inr m \<Rightarrow>
          (let s1 = bind_name ''esmif_model'' (PyModel (module_eval m)) (emit ModuleEval s)
           in case get_device ''device'' s1 of
                Inl e \<Rightarrow> Inl (e, s1)
              | Inr d \<Rightarrow>
                  (let s2 = affect (transfer_effects w (module_eval m) d) (emit (ModuleTo d) s1)
                   in case module_to w (module_eval m) d of
                        Inl e \<Rightarrow> Inl (e, s2)
                      | Inr m' \<Rightarrow> Inr (bind_name ''esmif_model'' (PyModel m') s2))))"

text \<open>Assignment of a literal.\<close>

definition assign :: "string \<Rightarrow> pyval \<Rightarrow> stmt" where
  "assign x v s = Inr (bind_name x v s)"

text \<open>
  The arguments of the scoring call, evaluated left to right. The helper is handed
  a network, an alphabet, a path and a list of strings; a value of another kind in
  one of these places is rejected with \<open>TypeError\<close>.
\<close>

definition as_model :: "pyval \<Rightarrow> error + model" where
  "as_model v = (case v of PyModel m \<Rightarrow> Inr m | _ \<Rightarrow> Inl TypeError)"

definition as_alphabet :: "pyval \<Rightarrow> error + alphabet" where
  "as_alphabet v = (case v of PyAlphabet a \<Rightarrow> Inr a | _ \<Rightarrow> Inl TypeError)"

definition as_str :: "pyval \<Rightarrow> error + string" where
  "as_str v = (case v of PyStr p \<Rightarrow> Inr p | _ \<Rightarrow> Inl TypeError)"

fun as_strs :: "pyval list \<Rightarrow> error + string list" where
  "as_strs [] = Inr []"
| "as_strs (v # vs) =
     (case as_str v of
        Inl e \<Rightarrow> Inl e
      | Inr p \<Rightarrow> (case as_strs vs of Inl e \<Rightarrow> Inl e | Inr ps \<Rightarrow> Inr (p # ps)))"

definition as_str_list :: "pyval \<Rightarrow> error + string list" where
  "as_str_list v = (case v of PyList vs \<Rightarrow> as_strs vs | _ \<Rightarrow> Inl TypeError)"

text \<open>
  Unpacking into three targets: a tuple or list of three values unpacks, one of
  another length raises \<open>ValueError\<close>, a value of the other kinds is not unpacked.
\<close>

fun unpack3 :: "pyval \<Rightarrow> error + pyval \<times> pyval \<times> pyval" where
  "unpack3 (PyTuple [a, b, c]) = Inr (a, b, c)"
| "unpack3 (PyTuple vs) = Inl ValueError"
| "unpack3 (PyList [a, b, c]) = Inr (a, b, c)"
| "unpack3 (PyList vs) = Inl ValueError"
| "unpack3 v = Inl TypeError"

text \<open>
  \<open>entropy, loss, perplexity = score_complex(esmif_model, esmif_alphabet, pdb_path,
  target_seq_list=target_seq_list)\<close>.
\<close>

definition call_score_complex :: "world \<Rightarrow> stmt" where
  "call_score_complex w s =
     (case lookup_name ''score_complex'' s of
        Inl e \<Rightarrow> Inl (e, s)
      | Inr f \<Rightarrow>
     (case lookup_name ''esmif_model'' s of
        Inl e \<Rightarrow> Inl (e, s)
      | Inr vm \<Rightarrow>
     (case lookup_name ''esmif_alphabet'' s of
        Inl e \<Rightarrow> Inl (e, s)
      | Inr va \<Rightarrow>
     (case lookup_name ''pdb_path'' s of
        Inl e \<Rightarrow> Inl (e, s)
      | Inr vp \<Rightarrow>
     (case lookup_name ''target_seq_list'' s of
        Inl e \<Rightarrow> Inl (e, s)
      | Inr vq \<Rightarrow>
     (if f \<noteq> PyImported ''models.score_esmif'' ''score_complex'' then Inl (TypeError, s)
      else
     (case as_model vm of
        Inl e \<Rightarrow> Inl (e, s)
      | Inr m \<Rightarrow>
     (case as_alphabet va of
        Inl e \<Rightarrow> Inl (e, s)
      | Inr a \<Rightarrow>
     (case as_str vp of
        Inl e \<Rightarrow> Inl (e, s)
      | Inr p \<Rightarrow>
     (case as_str_list vq of
        Inl e \<Rightarrow> Inl (e, s)
      | Inr qs \<Rightarrow>
          (let s1 = affect (scorer_effects w m a p qs) (emit (ScoreComplex m a p qs) s)
           in case score_complex w m a p qs of
                Inl e \<Rightarrow> Inl (e, s1)
              | Inr v \<Rightarrow>
                  (case unpack3 v of
                     Inl e \<Rightarrow> Inl (e, s1)
                   | Inr (x, y, z) \<Rightarrow>
                       Inr (bind_name ''perplexity'' z
                             (bind_name ''loss'' y
                               (bind_name ''entropy'' x s1)))))))))))))))"

text \<open>The attribute \<open>shape\<close>, which of the values here only a tensor has.\<close>

definition shape_of :: "pyval \<Rightarrow> error + pyval" where
  "shape_of v = (case v of PyTensor t \<Rightarrow> Inr (PySize (shape t)) | _ \<Rightarrow> Inl (AttributeError ''shape''))"

text \<open>The expression statement \<open>entropy.shape, loss, perplexity\<close> that ends the second cell.\<close>

definition show_result :: stmt where
  "show_result s =
     (case lookup_name ''entropy'' s of
        Inl e \<Rightarrow> Inl (e, s)
      | Inr x \<Rightarrow>
     (case shape_of x of
        Inl e \<Rightarrow> Inl (e, s)
      | Inr sh \<Rightarrow>
     (case lookup_name ''loss'' s of
        Inl e \<Rightarrow> Inl (e, s)
      | Inr y \<Rightarrow>
     (case lookup_name ''perplexity'' s of
        Inl e \<Rightarrow> Inl (e, s)
      | Inr z \<Rightarrow> Inr (s\<lparr>out := Some (PyTuple [sh, y, z])\<rparr>)))))"

subsection \<open>The three cells\<close>

text \<open>The first cell up to its last import: the environment setup.\<close>

definition environment_setup :: "world \<Rightarrow> stmt list" where
  "environment_setup w =
    [import_module w ''os'',
     import_module w ''sys'',
     sys_path_append ''..'',
     import_module w ''esm'',
     import_as w ''numpy'' ''np'',
     import_as w ''pandas'' ''pd'',
     import_module w ''torch'',
     import_module w ''torch_geometric'',
     import_module w ''torch_sparse'',
     from_import w ''torch_geometric.nn'' ''MessagePassing'',
     from_import w ''tqdm.auto'' ''tqdm'',
     from_import w ''models.sample_esmif'' ''sample_complex'',
     from_import w ''models.score_esmif'' ''score_complex'']"

text \<open>The rest of the first cell: device selection and loading of the network.\<close>

definition model_loading :: "world \<Rightarrow> stmt list" where
  "model_loading w = [assign_device w, load_pretrained w, eval_and_move w]"

definition cell1 :: "world \<Rightarrow> stmt list" where
  "cell1 w = environment_setup w @ model_loading w"

definition cell2 :: "world \<Rightarrow> stmt list" where
  "cell2 w =
    [assign ''pdb_path'' (PyStr pdb_path),
     assign ''target_seq_list'' (PyList (map PyStr target_seq_list)),
     call_score_complex w,
     show_result]"

text \<open>Every line of the third cell is a comment or blank, so it has no statement.\<close>

definition cell3 :: "world \<Rightarrow> stmt list" where
  "cell3 w = []"

text \<open>Running the notebook runs its cells in order, in one interpreter.\<close>

definition run_notebook :: "world \<Rightarrow> state \<Rightarrow> outcome" where
  "run_notebook w s = run_stmts (cell1 w @ cell2 w @ cell3 w) s"

section \<open>Vocabulary of the statements proved below\<close>

subsection \<open>The calls of a complete run\<close>

definition selected_device :: "world \<Rightarrow> device" where
  "selected_device w = (if cuda_is_available w then Cuda else Cpu)"

text \<open>The network as the first cell leaves it: \<open>eval()\<close> and \<open>to(device)\<close> applied to what the loader gave.\<close>

definition scoring_model :: "world \<Rightarrow> model \<Rightarrow> model" where
  "scoring_model w m = m\<lparr>training := False, on_device := selected_device w\<rparr>"

definition setup_events :: "event list" where
  "setup_events =
     [Import ''os'',
      Import ''sys'',
      SysPathAppend ''..'',
      Import ''esm'',
      Import ''numpy'',
      Import ''pandas'',
      Import ''torch'',
      Import ''torch_geometric'',
      Import ''torch_sparse'',
      FromImport ''torch_geometric.nn'' ''MessagePassing'',
      FromImport ''tqdm.auto'' ''tqdm'',
      FromImport ''models.sample_esmif'' ''sample_complex'',
      FromImport ''models.score_esmif'' ''score_complex'']"

definition loading_events :: "world \<Rightarrow> event list" where
  "loading_events w =
     [CudaIsAvailable,
      TorchDevice (if cuda_is_available w then ''cuda'' else ''cpu''),
      LoadPretrained ''esm_if1_gvp4_t16_142M_UR50'',
      ModuleEval,
      ModuleTo (selected_device w)]"

text \<open>
  All calls of a run in which nothing raises. The scoring call has the loaded network
  as an argument, so there is none to list when the loader raises.
\<close>

definition notebook_events :: "world \<Rightarrow> event list" where
  "notebook_events w =
     setup_events @ loading_events w @
     (case esm_if1_gvp4_t16_142M_UR50 w of
        Inl e \<Rightarrow> []
      | Inr (m, a) \<Rightarrow> [ScoreComplex (scoring_model w m) a pdb_path target_seq_list])"

text \<open>The modules named by the import statements of the first cell.\<close>

definition imported_modules :: "string list" where
  "imported_modules =
     [''os'', ''sys'', ''esm'', ''numpy'', ''pandas'', ''torch'', ''torch_geometric'',
      ''torch_sparse'', ''torch_geometric.nn'', ''tqdm.auto'', ''models.sample_esmif'',
      ''models.score_esmif'']"

fun is_sample_call :: "event \<Rightarrow> bool" where
  "is_sample_call (SampleComplex p out_path) = True"
| "is_sample_call ev = False"

fun is_score_call :: "event \<Rightarrow> bool" where
  "is_score_call (ScoreComplex m a p qs) = True"
| "is_score_call ev = False"

subsection \<open>What a completed run has bound\<close>

definition import_bindings :: "(string \<times> pyval) list" where
  "import_bindings =
     [(''os'', PyModule ''os''),
      (''sys'', PyModule ''sys''),
      (''esm'', PyModule ''esm''),
      (''np'', PyModule ''numpy''),
      (''pd'', PyModule ''pandas''),
      (''torch'', PyModule ''torch''),
      (''torch_geometric'', PyModule ''torch_geometric''),
      (''torch_sparse'', PyModule ''torch_sparse''),
      (''MessagePassing'', PyImported ''torch_geometric.nn'' ''MessagePassing''),
      (''tqdm'', PyImported ''tqdm.auto'' ''tqdm''),
      (''sample_complex'', PyImported ''models.sample_esmif'' ''sample_complex''),
      (''score_complex'', PyImported ''models.score_esmif'' ''score_complex'')]"

definition model_bindings :: "world \<Rightarrow> model \<Rightarrow> alphabet \<Rightarrow> (string \<times> pyval) list" where
  "model_bindings w m a =
     [(''device'', PyDevice (selected_device w)),
      (''esmif_model'', PyModel (scoring_model w m)),
      (''esmif_alphabet'', PyAlphabet a)]"

definition scoring_bindings :: "score \<Rightarrow> (string \<times> pyval) list" where
  "scoring_bindings r =
     [(''pdb_path'', PyStr pdb_path),
      (''target_seq_list'', PyList (map PyStr target_seq_list)),
      (''entropy'', PyTensor (entropy r)),
      (''loss'', PyFloat (loss r)),
      (''perplexity'', PyFloat (perplexity r))]"

subsection \<open>The module table and the outside world after the imports\<close>

text \<open>
  An import statement in either form: \<open>import m as n\<close> (with \<open>n\<close> the same as \<open>m\<close> for the
  plain \<open>import m\<close>) and \<open>from m import x\<close>.
\<close>

datatype import_request = Plain string string | From string string

fun request_stmt :: "world \<Rightarrow> import_request \<Rightarrow> stmt" where
  "request_stmt w (Plain m n) = import_as w m n"
| "request_stmt w (From m x) = from_import w m x"

fun request_module :: "import_request \<Rightarrow> string" where
  "request_module (Plain m n) = m"
| "request_module (From m x) = m"

fun request_name :: "import_request \<Rightarrow> string option" where
  "request_name (Plain m n) = None"
| "request_name (From m x) = Some x"

fun request_event :: "import_request \<Rightarrow> event" where
  "request_event (Plain m n) = Import m"
| "request_event (From m x) = FromImport m x"

fun request_binding :: "import_request \<Rightarrow> string \<times> pyval" where
  "request_binding (Plain m n) = (n, PyModule m)"
| "request_binding (From m x) = (x, PyImported m x)"

text \<open>The imports of the first cell, before and after the search path is extended.\<close>

definition first_imports :: "import_request list" where
  "first_imports = [Plain ''os'' ''os'', Plain ''sys'' ''sys'']"

definition later_imports :: "import_request list" where
  "later_imports =
     [Plain ''esm'' ''esm'',
      Plain ''numpy'' ''np'',
      Plain ''pandas'' ''pd'',
      Plain ''torch'' ''torch'',
      Plain ''torch_geometric'' ''torch_geometric'',
      Plain ''torch_sparse'' ''torch_sparse'',
      From ''torch_geometric.nn'' ''MessagePassing'',
      From ''tqdm.auto'' ''tqdm'',
      From ''models.sample_esmif'' ''sample_complex'',
      From ''models.score_esmif'' ''score_complex'']"

text \<open>
  The table of loaded modules after a list of imports that all succeed, made with the
  search path \<open>p\<close> from the table \<open>tab\<close>, and what these imports do outside the
  interpreter.
\<close>

fun imports_table ::
  "world \<Rightarrow> string list \<Rightarrow> import_request list \<Rightarrow> string list \<Rightarrow> string list" where
  "imports_table w p [] tab = tab"
| "imports_table w p (r # rs) tab =
     imports_table w p rs
       (add_modules (fst (importer w p tab (request_module r) (request_name r))
                     @ [request_module r]) tab)"

fun imports_effects ::
  "world \<Rightarrow> string list \<Rightarrow> import_request list \<Rightarrow> string list \<Rightarrow> effect list" where
  "imports_effects w p [] tab = []"
| "imports_effects w p (r # rs) tab =
     import_effects w p tab (request_module r) (request_name r)
     @ imports_effects w p rs
         (add_modules (fst (importer w p tab (request_module r) (request_name r))
                       @ [request_module r]) tab)"

definition setup_table :: "world \<Rightarrow> state \<Rightarrow> string list" where
  "setup_table w s =
     imports_table w (sys_path s @ [''..'']) later_imports
       (imports_table w (sys_path s) first_imports (sys_modules s))"

definition setup_effects :: "world \<Rightarrow> state \<Rightarrow> effect list" where
  "setup_effects w s =
     imports_effects w (sys_path s) first_imports (sys_modules s)
     @ imports_effects w (sys_path s @ [''..'']) later_imports
         (imports_table w (sys_path s) first_imports (sys_modules s))"

subsection \<open>What one statement may do to the interpreter as a whole\<close>




subsection \<open>Example environments\<close>

definition demo_model :: model where
  "demo_model = \<lparr>weights = [142, 16, 4], training = True, on_device = Cpu\<rparr>"

definition checkpoint_cache :: string where
  "checkpoint_cache = ''~/.cache/torch/hub/checkpoints/esm_if1_gvp4_t16_142M_UR50.pt''"

text \<open>
  A machine without a GPU on which everything is installed and the notebook runs for
  the first time. The repository's \<open>models\<close> package is found only through the entry
  \<open>..\<close> of the search path, and importing one of its modules stores the compiled
  module beside it. The loader downloads the checkpoint and stores it in the cache of
  the library. The structure file of the second cell exists.
\<close>

definition demo_world :: world where
  "demo_world =
     \<lparr>importer = (\<lambda>p ms m x. if is_prefix ''models.'' m \<and> ''..'' \<notin> set p
                              then ([], Some (ModuleNotFoundError m))
                              else (if is_prefix ''models.'' m then [''models''] else [], None)),
      import_effects = (\<lambda>p ms m x. if is_prefix ''models.'' m \<and> ''..'' \<in> set p
                              then [WritesFile (''../models/__pycache__/'' @ drop 7 m
                                                 @ ''.cpython-311.pyc'')]
                              else []),
      cuda_is_available = False,
      esm_if1_gvp4_t16_142M_UR50 = Inr (demo_model, [''L'', ''A'', ''G'']),
      loader_effects = [Contacts ''dl.fbaipublicfiles.com'', WritesFile checkpoint_cache],
      to_error = (\<lambda>m d. if d = Cuda then Some (RuntimeError ''no CUDA device'') else None),
      transfer_effects = (\<lambda>m d. []),
      scorer = (\<lambda>m a p qs. if p = pdb_path
                             then Inr \<lparr>entropy = Tensor [length qs, 124, 20] [],
                                       loss = 5 / 2, perplexity = 12\<rparr>
                             else Inl (FileNotFoundError p)),
      scorer_effects = (\<lambda>m a p qs. [])\<rparr>"

text \<open>The same machine without the structure file.\<close>

definition missing_structure_world :: world where
  "missing_structure_world = demo_world\<lparr>scorer := (\<lambda>m a p qs. Inl (FileNotFoundError p))\<rparr>"




text \<open>An interpreter in which nothing has run yet.\<close>

definition fresh_kernel :: state where
  "fresh_kernel =
     \<lparr>sys_path = [''/opt/kernel/lib''], sys_modules = [''sys''], namespace = Map.empty,
      out = None, trace = [], effects = []\<rparr>"

section \<open>Running statements\<close>

lemma run_stmts_append:
  "run_stmts (fs @ gs) s = (case run_stmts fs s of Inl x \<Rightarrow> Inl x | Inr s' \<Rightarrow> run_stmts gs s')"
  by (induction fs arbitrary: s) (auto split: sum.splits)

lemma run_stmts_Cons_Inr:
  "run_stmts (f # fs) s = Inr s' \<longleftrightarrow> (\<exists>s1. f s = Inr s1 \<and> run_stmts fs s1 = Inr s')"
  by (auto split: sum.splits)

lemma run_stmts_Cons_Inl:
  "run_stmts (f # fs) s = Inl y \<longleftrightarrow>
     f s = Inl y \<or> (\<exists>s1. f s = Inr s1 \<and> run_stmts fs s1 = Inl y)"
  by (auto split: sum.splits)

lemma emit_fields [simp]:
  "sys_path (emit ev s) = sys_path s"
  "sys_modules (emit ev s) = sys_modules s"
  "namespace (emit ev s) = namespace s"
  "out (emit ev s) = out s"
  "trace (emit ev s) = trace s @ [ev]"
  "effects (emit ev s) = effects s"
  by (simp_all add: emit_def)

lemma affect_fields [simp]:
  "sys_path (affect efs s) = sys_path s"
  "sys_modules (affect efs s) = sys_modules s"
  "namespace (affect efs s) = namespace s"
  "out (affect efs s) = out s"
  "trace (affect efs s) = trace s"
  "effects (affect efs s) = effects s @ efs"
  by (simp_all add: affect_def)

lemma bind_name_fields [simp]:
  "sys_path (bind_name x v s) = sys_path s"
  "sys_modules (bind_name x v s) = sys_modules s"
  "namespace (bind_name x v s) = (namespace s)(x \<mapsto> v)"
  "out (bind_name x v s) = out s"
  "trace (bind_name x v s) = trace s"
  "effects (bind_name x v s) = effects s"
  by (simp_all add: bind_name_def)

lemma set_add_modules [simp]: "set (add_modules ms tab) = set tab \<union> set ms"
  by (auto simp: add_modules_def)

lemma loaded_fields [simp]:
  "sys_path (loaded ms s) = sys_path s"
  "namespace (loaded ms s) = namespace s"
  "out (loaded ms s) = out s"
  "trace (loaded ms s) = trace s"
  "effects (loaded ms s) = effects s"
  "set (sys_modules (loaded ms s)) = set (sys_modules s) \<union> set ms"
  by (simp_all add: loaded_def)

lemma sys_modules_loaded: "sys_modules (loaded ms s) = add_modules ms (sys_modules s)"
  by (simp add: loaded_def)

subsection \<open>Prefixes\<close>

lemma is_prefix_append: "is_prefix xs ys \<Longrightarrow> is_prefix xs (ys @ zs)"
  by (induction xs ys rule: is_prefix.induct) simp_all

lemma is_prefix_same_append [simp]: "is_prefix (xs @ ys) (xs @ zs) = is_prefix ys zs"
  by (induction xs) simp_all

lemma is_prefix_refl [simp]: "is_prefix xs xs"
  by (induction xs) simp_all

lemma is_prefix_append_self [simp]: "is_prefix xs (xs @ zs)"
  by (induction xs) simp_all

lemma is_prefix_take [simp]: "is_prefix (take n xs) xs"
  by (induction xs arbitrary: n) (auto simp: take_Cons')

lemma is_prefix_trans: "is_prefix xs ys \<Longrightarrow> is_prefix ys zs \<Longrightarrow> is_prefix xs zs"
proof (induction xs ys arbitrary: zs rule: is_prefix.induct)
  case (3 x xs y ys)
  then show ?case by (cases zs) auto
qed simp_all

lemma is_prefix_list_all: "is_prefix xs ys \<Longrightarrow> list_all P ys \<Longrightarrow> list_all P xs"
  by (induction xs ys rule: is_prefix.induct) simp_all

lemma is_prefix_concat_map:
  "is_prefix xs ys \<Longrightarrow> is_prefix (concat (map f xs)) (concat (map f ys))"
  by (induction xs ys rule: is_prefix.induct) simp_all

subsection \<open>Single statements\<close>

lemma import_as_Inr:
  "import_as w m x s = Inr s' \<longleftrightarrow>
     (\<exists>ms. importer w (sys_path s) (sys_modules s) m None = (ms, None)
        \<and> s' = bind_name x (PyModule m) (loaded (ms @ [m])
                 (affect (import_effects w (sys_path s) (sys_modules s) m None)
                   (emit (Import m) s))))"
  by (auto simp: import_as_def Let_def split: prod.splits option.splits)

lemma import_as_Inl:
  "import_as w m x s = Inl y \<longleftrightarrow>
     (\<exists>ms e. importer w (sys_path s) (sys_modules s) m None = (ms, Some e)
        \<and> y = (e, loaded ms (affect (import_effects w (sys_path s) (sys_modules s) m None)
                           (emit (Import m) s))))"
  by (auto simp: import_as_def Let_def split: prod.splits option.splits)

lemma from_import_Inr:
  "from_import w m x s = Inr s' \<longleftrightarrow>
     (\<exists>ms. importer w (sys_path s) (sys_modules s) m (Some x) = (ms, None)
        \<and> s' = bind_name x (PyImported m x) (loaded (ms @ [m])
                 (affect (import_effects w (sys_path s) (sys_modules s) m (Some x))
                   (emit (FromImport m x) s))))"
  by (auto simp: from_import_def Let_def split: prod.splits option.splits)

lemma from_import_Inl:
  "from_import w m x s = Inl y \<longleftrightarrow>
     (\<exists>ms e. importer w (sys_path s) (sys_modules s) m (Some x) = (ms, Some e)
        \<and> y = (e, loaded ms (affect (import_effects w (sys_path s) (sys_modules s) m (Some x))
                           (emit (FromImport m x) s))))"
  by (auto simp: from_import_def Let_def split: prod.splits option.splits)

lemma sys_path_append_Inr:
  "sys_path_append p s = Inr s' \<longleftrightarrow>
     namespace s ''sys'' = Some (PyModule ''sys'')
     \<and> s' = emit (SysPathAppend p) (s\<lparr>sys_path := sys_path s @ [p]\<rparr>)"
  by (auto simp: sys_path_append_def use_module_def lookup_name_def split: option.splits)

lemma sys_path_append_Inl:
  "namespace s ''sys'' = Some (PyModule ''sys'') \<Longrightarrow> sys_path_append p s \<noteq> Inl y"
  by (auto simp: sys_path_append_def use_module_def lookup_name_def split: option.splits)

lemma assign_device_run:
  assumes "namespace s ''torch'' = Some (PyModule ''torch'')"
  shows "assign_device w s =
           Inr (bind_name ''device'' (PyDevice (selected_device w))
                 (emit (TorchDevice (if cuda_is_available w then ''cuda'' else ''cpu''))
                   (emit CudaIsAvailable s)))"
  using assms
  by (simp add: assign_device_def use_module_def lookup_name_def torch_device_def
      selected_device_def Let_def)

lemma load_pretrained_run:
  assumes "namespace s ''esm'' = Some (PyModule ''esm'')"
  shows "load_pretrained w s =
           (case esm_if1_gvp4_t16_142M_UR50 w of
              Inl e \<Rightarrow> Inl (e, affect (loader_effects w)
                                (emit (LoadPretrained ''esm_if1_gvp4_t16_142M_UR50'') s))
            | Inr (m, a) \<Rightarrow>
                Inr (bind_name ''esmif_alphabet'' (PyAlphabet a)
                      (bind_name ''esmif_model'' (PyModel m)
                        (affect (loader_effects w)
                          (emit (LoadPretrained ''esm_if1_gvp4_t16_142M_UR50'') s)))))"
  using assms
  by (simp add: load_pretrained_def use_module_def lookup_name_def Let_def)

lemma eval_and_move_run:
  assumes "namespace s ''esmif_model'' = Some (PyModel m)"
    and "namespace s ''device'' = Some (PyDevice d)"
  shows "eval_and_move w s =
           (let s2 = affect (transfer_effects w (module_eval m) d)
                       (emit (ModuleTo d)
                         (bind_name ''esmif_model'' (PyModel (module_eval m)) (emit ModuleEval s)))
            in case to_error w (module_eval m) d of
                 Some e \<Rightarrow> Inl (e, s2)
               | None \<Rightarrow>
                   Inr (bind_name ''esmif_model'' (PyModel (module_eval m\<lparr>on_device := d\<rparr>)) s2))"
  using assms
  by (simp add: eval_and_move_def get_model_def get_device_def lookup_name_def module_to_def
      Let_def split: option.splits)

lemma as_strs_PyStr: "as_strs (map PyStr qs) = Inr qs"
  by (induction qs) (simp_all add: as_str_def)

subsection \<open>Runs of import statements\<close>

lemma request_stmt_Inr:
  "request_stmt w r s = Inr s' \<longleftrightarrow>
     (\<exists>ms. importer w (sys_path s) (sys_modules s) (request_module r) (request_name r) = (ms, None)
        \<and> s' = bind_name (fst (request_binding r)) (snd (request_binding r))
                 (loaded (ms @ [request_module r])
                   (affect (import_effects w (sys_path s) (sys_modules s)
                              (request_module r) (request_name r))
                     (emit (request_event r) s))))"
  by (cases r) (simp_all add: import_as_Inr from_import_Inr)

lemma request_stmt_Inl:
  "request_stmt w r s = Inl y \<longleftrightarrow>
     (\<exists>ms e. importer w (sys_path s) (sys_modules s) (request_module r) (request_name r)
               = (ms, Some e)
        \<and> y = (e, loaded ms
                 (affect (import_effects w (sys_path s) (sys_modules s)
                            (request_module r) (request_name r))
                   (emit (request_event r) s))))"
  by (cases r) (simp_all add: import_as_Inl from_import_Inl)

lemma run_imports_ok:
  "run_stmts (map (request_stmt w) rs) s = Inr s' \<Longrightarrow>
     sys_path s' = sys_path s
     \<and> out s' = out s
     \<and> trace s' = trace s @ map request_event rs
     \<and> sys_modules s' = imports_table w (sys_path s) rs (sys_modules s)
     \<and> effects s' = effects s @ imports_effects w (sys_path s) rs (sys_modules s)
     \<and> namespace s' = namespace s ++ map_of (rev (map request_binding rs))"
proof (induction rs arbitrary: s)
  case Nil
  then show ?case by simp
next
  case (Cons r rs)
  from Cons.prems obtain s1 where
    step: "request_stmt w r s = Inr s1" and rest: "run_stmts (map (request_stmt w) rs) s1 = Inr s'"
    by (auto simp: run_stmts_Cons_Inr simp del: run_stmts.simps(2))
  from step obtain ms where
    imp: "importer w (sys_path s) (sys_modules s) (request_module r) (request_name r) = (ms, None)"
    and s1: "s1 = bind_name (fst (request_binding r)) (snd (request_binding r))
                 (loaded (ms @ [request_module r])
                   (affect (import_effects w (sys_path s) (sys_modules s)
                              (request_module r) (request_name r))
                     (emit (request_event r) s)))"
    by (auto simp: request_stmt_Inr)
  have f: "sys_path s1 = sys_path s" "out s1 = out s" "trace s1 = trace s @ [request_event r]"
    "sys_modules s1 = add_modules (ms @ [request_module r]) (sys_modules s)"
    "effects s1 = effects s @ import_effects w (sys_path s) (sys_modules s)
                                (request_module r) (request_name r)"
    "namespace s1 = (namespace s)(fst (request_binding r) \<mapsto> snd (request_binding r))"
    by (simp_all add: s1 sys_modules_loaded)
  from Cons.IH [OF rest] have ih:
    "sys_path s' = sys_path s1" "out s' = out s1"
    "trace s' = trace s1 @ map request_event rs"
    "sys_modules s' = imports_table w (sys_path s1) rs (sys_modules s1)"
    "effects s' = effects s1 @ imports_effects w (sys_path s1) rs (sys_modules s1)"
    "namespace s' = namespace s1 ++ map_of (rev (map request_binding rs))"
    by simp_all
  have "namespace s' = namespace s ++ map_of (rev (map request_binding (r # rs)))"
    unfolding ih(6) f(6) by (rule ext) (simp add: map_add_def split: option.splits)
  then show ?case
    using ih(1-5) by (simp add: f(1-5) imp)
qed

lemma imports_effects_origin:
  "ef \<in> set (imports_effects w p rs tab) \<Longrightarrow> \<exists>p ms m x. ef \<in> set (import_effects w p ms m x)"
  by (induction rs arbitrary: tab) auto

lemma run_imports_raises:
  "run_stmts (map (request_stmt w) rs) s = Inl (e, s') \<Longrightarrow>
     (\<exists>p ms m x. snd (importer w p ms m x) = Some e)
     \<and> sys_path s' = sys_path s
     \<and> out s' = out s
     \<and> (\<exists>evs. trace s' = trace s @ evs \<and> evs \<noteq> [] \<and> is_prefix evs (map request_event rs))
     \<and> set (sys_modules s) \<subseteq> set (sys_modules s')
     \<and> (\<exists>efs. effects s' = effects s @ efs
           \<and> (\<forall>ef \<in> set efs. \<exists>p ms m x. ef \<in> set (import_effects w p ms m x)))"
proof (induction rs arbitrary: s)
  case Nil
  then show ?case by simp
next
  case (Cons r rs)
  from Cons.prems consider
    (here) "request_stmt w r s = Inl (e, s')"
  | (later) s1 where "request_stmt w r s = Inr s1"
      "run_stmts (map (request_stmt w) rs) s1 = Inl (e, s')"
    by (auto simp: run_stmts_Cons_Inl simp del: run_stmts.simps(2))
  then show ?case
  proof cases
    case here
    then obtain ms where
      imp: "importer w (sys_path s) (sys_modules s) (request_module r) (request_name r)
              = (ms, Some e)"
      and s': "s' = loaded ms
                 (affect (import_effects w (sys_path s) (sys_modules s)
                            (request_module r) (request_name r))
                   (emit (request_event r) s))"
      by (auto simp: request_stmt_Inl)
    have "\<exists>p ms m x. snd (importer w p ms m x) = Some e"
      using imp by (metis snd_conv)
    moreover have "\<exists>efs. effects s' = effects s @ efs
           \<and> (\<forall>ef \<in> set efs. \<exists>p ms m x. ef \<in> set (import_effects w p ms m x))"
      by (auto simp: s')
    ultimately show ?thesis
      by (simp add: s')
  next
    case later
    from later(1) obtain ms where
      s1: "s1 = bind_name (fst (request_binding r)) (snd (request_binding r))
                 (loaded (ms @ [request_module r])
                   (affect (import_effects w (sys_path s) (sys_modules s)
                              (request_module r) (request_name r))
                     (emit (request_event r) s)))"
      by (auto simp: request_stmt_Inr)
    have f: "sys_path s1 = sys_path s" "out s1 = out s" "trace s1 = trace s @ [request_event r]"
      "set (sys_modules s) \<subseteq> set (sys_modules s1)"
      "effects s1 = effects s @ import_effects w (sys_path s) (sys_modules s)
                                  (request_module r) (request_name r)"
      by (auto simp: s1)
    from Cons.IH [OF later(2)] obtain evs efs where
      ih: "\<exists>p ms m x. snd (importer w p ms m x) = Some e"
        "sys_path s' = sys_path s1" "out s' = out s1"
        "trace s' = trace s1 @ evs" "is_prefix evs (map request_event rs)"
        "set (sys_modules s1) \<subseteq> set (sys_modules s')"
        "effects s' = effects s1 @ efs"
        "\<forall>ef \<in> set efs. \<exists>p ms m x. ef \<in> set (import_effects w p ms m x)"
      by blast
    have "\<exists>efs. effects s' = effects s @ efs
           \<and> (\<forall>ef \<in> set efs. \<exists>p ms m x. ef \<in> set (import_effects w p ms m x))"
    proof (intro exI conjI)
      show "effects s' = effects s @ (import_effects w (sys_path s) (sys_modules s)
                                  (request_module r) (request_name r) @ efs)"
        using ih(7) f(5) by simp
      show "\<forall>ef \<in> set (import_effects w (sys_path s) (sys_modules s)
                                  (request_module r) (request_name r) @ efs).
              \<exists>p ms m x. ef \<in> set (import_effects w p ms m x)"
        using ih(8) by auto
    qed
    moreover have "\<exists>evs. trace s' = trace s @ evs \<and> evs \<noteq> []
                    \<and> is_prefix evs (map request_event (r # rs))"
    proof (intro exI conjI)
      show "trace s' = trace s @ (request_event r # evs)"
        using ih(4) f(3) by simp
      show "request_event r # evs \<noteq> []" by simp
      show "is_prefix (request_event r # evs) (map request_event (r # rs))"
        using ih(5) by simp
    qed
    ultimately show ?thesis
      using ih(1,2,3,6) f by auto
  qed
qed

subsection \<open>The environment setup\<close>

lemma run_stmts_append_Inr:
  "run_stmts (fs @ gs) s = Inr s' \<longleftrightarrow>
     (\<exists>s1. run_stmts fs s = Inr s1 \<and> run_stmts gs s1 = Inr s')"
  by (auto simp: run_stmts_append split: sum.splits)

lemma run_stmts_append_Inl:
  "run_stmts (fs @ gs) s = Inl y \<longleftrightarrow>
     run_stmts fs s = Inl y \<or> (\<exists>s1. run_stmts fs s = Inr s1 \<and> run_stmts gs s1 = Inl y)"
  by (auto simp: run_stmts_append split: sum.splits)

lemma environment_setup_requests:
  "environment_setup w =
     map (request_stmt w) first_imports @ [sys_path_append ''..'']
     @ map (request_stmt w) later_imports"
  by (simp add: environment_setup_def first_imports_def later_imports_def import_module_def)

lemma setup_events_requests:
  "setup_events =
     map request_event first_imports @ [SysPathAppend ''..''] @ map request_event later_imports"
  by (simp add: setup_events_def first_imports_def later_imports_def)

lemma import_bindings_requests:
  "m ++ map_of (rev (map request_binding first_imports))
     ++ map_of (rev (map request_binding later_imports))
   = m ++ map_of import_bindings"
  by (rule ext)
    (simp add: map_add_def import_bindings_def first_imports_def later_imports_def)

lemma first_imports_bind_sys:
  "(m ++ map_of (rev (map request_binding first_imports))) ''sys'' = Some (PyModule ''sys'')"
  by (simp add: first_imports_def)

lemma setup_ok:
  assumes "run_stmts (environment_setup w) s = Inr s1"
  shows "namespace s1 ''sys'' = Some (PyModule ''sys'')"
    and "namespace s1 ''torch'' = Some (PyModule ''torch'')"
    and "namespace s1 ''esm'' = Some (PyModule ''esm'')"
    and "namespace s1 ''score_complex'' = Some (PyImported ''models.score_esmif'' ''score_complex'')"
    and "sys_path s1 = sys_path s @ [''..'']"
    and "out s1 = out s"
    and "trace s1 = trace s @ setup_events"
    and "sys_modules s1 = setup_table w s"
    and "effects s1 = effects s @ setup_effects w s"
    and "namespace s1 = namespace s ++ map_of import_bindings"
proof -
  from assms obtain sa sb where
    a: "run_stmts (map (request_stmt w) first_imports) s = Inr sa"
    and b: "sys_path_append ''..'' sa = Inr sb"
    and c: "run_stmts (map (request_stmt w) later_imports) sb = Inr s1"
    unfolding environment_setup_requests run_stmts_append_Inr
    by (auto simp: run_stmts_Cons_Inr simp del: run_stmts.simps(2))
  note fa = run_imports_ok [OF a]
  have sb: "sb = emit (SysPathAppend ''..'') (sa\<lparr>sys_path := sys_path sa @ [''..'']\<rparr>)"
    using b by (simp add: sys_path_append_Inr)
  have fb: "sys_path sb = sys_path s @ [''..'']" "out sb = out s"
    "trace sb = trace s @ map request_event first_imports @ [SysPathAppend ''..'']"
    "sys_modules sb = imports_table w (sys_path s) first_imports (sys_modules s)"
    "effects sb = effects s @ imports_effects w (sys_path s) first_imports (sys_modules s)"
    "namespace sb = namespace s ++ map_of (rev (map request_binding first_imports))"
    using fa by (simp_all add: sb)
  note fc = run_imports_ok [OF c]
  show "sys_path s1 = sys_path s @ [''..'']" "out s1 = out s"
    using fc fb by simp_all
  show "trace s1 = trace s @ setup_events"
    using fc fb by (simp add: setup_events_requests)
  show "sys_modules s1 = setup_table w s"
    using fc fb by (simp add: setup_table_def)
  show "effects s1 = effects s @ setup_effects w s"
    using fc fb by (simp add: setup_effects_def)
  show ns: "namespace s1 = namespace s ++ map_of import_bindings"
    using fc fb by (simp add: import_bindings_requests)
  show "namespace s1 ''sys'' = Some (PyModule ''sys'')"
    "namespace s1 ''torch'' = Some (PyModule ''torch'')"
    "namespace s1 ''esm'' = Some (PyModule ''esm'')"
    "namespace s1 ''score_complex'' = Some (PyImported ''models.score_esmif'' ''score_complex'')"
    by (simp_all add: ns import_bindings_def)
qed

lemma set_imports_table: "set tab \<subseteq> set (imports_table w p rs tab)"
  by (induction rs arbitrary: tab) (auto simp del: imports_table.simps(2) simp: imports_table.simps(2) [abs_def] dest!: meta_spec)

lemma setup_raises:
  assumes "run_stmts (environment_setup w) s = Inl (e, s1)"
  shows "\<exists>p ms m x. snd (importer w p ms m x) = Some e"
    and "\<exists>evs. trace s1 = trace s @ evs \<and> is_prefix evs setup_events"
    and "sys_path s1 = sys_path s \<or> sys_path s1 = sys_path s @ [''..'']"
    and "set (sys_modules s) \<subseteq> set (sys_modules s1)"
    and "out s1 = out s"
    and "\<exists>efs. effects s1 = effects s @ efs
           \<and> (\<forall>ef \<in> set efs. \<exists>p ms m x. ef \<in> set (import_effects w p ms m x))"
proof -
  from assms consider
    (first) "run_stmts (map (request_stmt w) first_imports) s = Inl (e, s1)"
  | (append) sa where "run_stmts (map (request_stmt w) first_imports) s = Inr sa"
      "sys_path_append ''..'' sa = Inl (e, s1)"
  | (later) sa sb where "run_stmts (map (request_stmt w) first_imports) s = Inr sa"
      "sys_path_append ''..'' sa = Inr sb"
      "run_stmts (map (request_stmt w) later_imports) sb = Inl (e, s1)"
    unfolding environment_setup_requests run_stmts_append_Inl run_stmts_append_Inr
    by (auto simp: run_stmts_Cons_Inl run_stmts_Cons_Inr simp del: run_stmts.simps(2))
  then have "(\<exists>p ms m x. snd (importer w p ms m x) = Some e)
     \<and> (\<exists>evs. trace s1 = trace s @ evs \<and> is_prefix evs setup_events)
     \<and> (sys_path s1 = sys_path s \<or> sys_path s1 = sys_path s @ [''..''])
     \<and> set (sys_modules s) \<subseteq> set (sys_modules s1)
     \<and> out s1 = out s
     \<and> (\<exists>efs. effects s1 = effects s @ efs
           \<and> (\<forall>ef \<in> set efs. \<exists>p ms m x. ef \<in> set (import_effects w p ms m x)))"
  proof cases
    case first
    from run_imports_raises [OF first] show ?thesis
      by (auto simp: setup_events_requests intro: is_prefix_append)
  next
    case append
    from run_imports_ok [OF append(1)]
    have "namespace sa ''sys'' = Some (PyModule ''sys'')"
      by (simp add: first_imports_bind_sys)
    with append(2) show ?thesis
      by (simp add: sys_path_append_Inl)
  next
    case later
    note fa = run_imports_ok [OF later(1)]
    have sb: "sb = emit (SysPathAppend ''..'') (sa\<lparr>sys_path := sys_path sa @ [''..'']\<rparr>)"
      using later(2) by (simp add: sys_path_append_Inr)
    have fb: "sys_path sb = sys_path s @ [''..'']" "out sb = out s"
      "trace sb = trace s @ map request_event first_imports @ [SysPathAppend ''..'']"
      "sys_modules sb = imports_table w (sys_path s) first_imports (sys_modules s)"
      "effects sb = effects s @ imports_effects w (sys_path s) first_imports (sys_modules s)"
      using fa by (simp_all add: sb)
    from run_imports_raises [OF later(3)] obtain evs efs where
      r: "\<exists>p ms m x. snd (importer w p ms m x) = Some e"
        "sys_path s1 = sys_path sb" "out s1 = out sb"
        "trace s1 = trace sb @ evs" "is_prefix evs (map request_event later_imports)"
        "set (sys_modules sb) \<subseteq> set (sys_modules s1)"
        "effects s1 = effects sb @ efs"
        "\<forall>ef \<in> set efs. \<exists>p ms m x. ef \<in> set (import_effects w p ms m x)"
      by blast
    have "\<exists>evs. trace s1 = trace s @ evs \<and> is_prefix evs setup_events"
      using r(4,5) fb(3) by (simp add: setup_events_requests)
    moreover have "set (sys_modules s) \<subseteq> set (sys_modules s1)"
      using r(6) fb(4) set_imports_table [of "sys_modules s" w "sys_path s" first_imports]
      by auto
    moreover have "\<exists>efs. effects s1 = effects s @ efs
           \<and> (\<forall>ef \<in> set efs. \<exists>p ms m x. ef \<in> set (import_effects w p ms m x))"
    proof (intro exI conjI)
      show "effects s1 = effects s
              @ (imports_effects w (sys_path s) first_imports (sys_modules s) @ efs)"
        using r(7) fb(5) by simp
      show "\<forall>ef \<in> set (imports_effects w (sys_path s) first_imports (sys_modules s) @ efs).
              \<exists>p ms m x. ef \<in> set (import_effects w p ms m x)"
        using r(8) imports_effects_origin by auto
    qed
    ultimately show ?thesis
      using r(1,2,3) fb(1,2) by simp
  qed
  then show "\<exists>p ms m x. snd (importer w p ms m x) = Some e"
    and "\<exists>evs. trace s1 = trace s @ evs \<and> is_prefix evs setup_events"
    and "sys_path s1 = sys_path s \<or> sys_path s1 = sys_path s @ [''..'']"
    and "set (sys_modules s) \<subseteq> set (sys_modules s1)"
    and "out s1 = out s"
    and "\<exists>efs. effects s1 = effects s @ efs
           \<and> (\<forall>ef \<in> set efs. \<exists>p ms m x. ef \<in> set (import_effects w p ms m x))"
    by blast+
qed

lemma set_setup_table:
  "set (sys_modules s) \<union> set imported_modules \<subseteq> set (setup_table w s)"
  by (auto simp: setup_table_def first_imports_def later_imports_def imported_modules_def
      dest: subsetD [OF set_imports_table])

subsection \<open>Loading the network\<close>

lemma model_loading_load_fails:
  assumes "namespace s ''torch'' = Some (PyModule ''torch'')"
    and "namespace s ''esm'' = Some (PyModule ''esm'')"
    and "esm_if1_gvp4_t16_142M_UR50 w = Inl e"
  shows "\<exists>s'. run_stmts (model_loading w) s = Inl (e, s')
          \<and> trace s' = trace s @ take 3 (loading_events w)
          \<and> sys_path s' = sys_path s \<and> sys_modules s' = sys_modules s \<and> out s' = out s
          \<and> effects s' = effects s @ loader_effects w"
  using assms
  by (simp add: model_loading_def assign_device_run load_pretrained_run loading_events_def)

lemma model_loading_move_fails:
  assumes "namespace s ''torch'' = Some (PyModule ''torch'')"
    and "namespace s ''esm'' = Some (PyModule ''esm'')"
    and "esm_if1_gvp4_t16_142M_UR50 w = Inr (m, a)"
    and "to_error w (module_eval m) (selected_device w) = Some e"
  shows "\<exists>s'. run_stmts (model_loading w) s = Inl (e, s')
          \<and> trace s' = trace s @ loading_events w
          \<and> sys_path s' = sys_path s \<and> sys_modules s' = sys_modules s \<and> out s' = out s
          \<and> effects s' = effects s @ loader_effects w
                          @ transfer_effects w (module_eval m) (selected_device w)"
  using assms
  by (simp add: model_loading_def assign_device_run load_pretrained_run
      eval_and_move_run [where m = m and d = "selected_device w"] loading_events_def Let_def)

lemma model_loading_ok:
  assumes "namespace s ''torch'' = Some (PyModule ''torch'')"
    and "namespace s ''esm'' = Some (PyModule ''esm'')"
    and "esm_if1_gvp4_t16_142M_UR50 w = Inr (m, a)"
    and "to_error w (module_eval m) (selected_device w) = None"
  shows "\<exists>s'. run_stmts (model_loading w) s = Inr s'
          \<and> trace s' = trace s @ loading_events w
          \<and> sys_path s' = sys_path s \<and> sys_modules s' = sys_modules s \<and> out s' = out s
          \<and> namespace s' ''device'' = Some (PyDevice (selected_device w))
          \<and> namespace s' ''esmif_model'' = Some (PyModel (scoring_model w m))
          \<and> namespace s' ''esmif_alphabet'' = Some (PyAlphabet a)
          \<and> namespace s' ''score_complex'' = namespace s ''score_complex''
          \<and> effects s' = effects s @ loader_effects w
                          @ transfer_effects w (module_eval m) (selected_device w)
          \<and> (\<forall>x. namespace s' x = (namespace s ++ map_of (model_bindings w m a)) x)"
  using assms
  by (simp add: model_loading_def assign_device_run load_pretrained_run
      eval_and_move_run [where m = m and d = "selected_device w"] loading_events_def
      scoring_model_def module_eval_def model_bindings_def map_add_def Let_def)

subsection \<open>The scoring cell\<close>

lemma cell2_score_fails:
  assumes "namespace s ''score_complex'' = Some (PyImported ''models.score_esmif'' ''score_complex'')"
    and "namespace s ''esmif_model'' = Some (PyModel m)"
    and "namespace s ''esmif_alphabet'' = Some (PyAlphabet a)"
    and "scorer w m a pdb_path target_seq_list = Inl e"
  shows "\<exists>s'. run_stmts (cell2 w) s = Inl (e, s')
          \<and> trace s' = trace s @ [ScoreComplex m a pdb_path target_seq_list]
          \<and> sys_path s' = sys_path s \<and> sys_modules s' = sys_modules s \<and> out s' = out s
          \<and> namespace s' ''esmif_model'' = Some (PyModel m)
          \<and> effects s' = effects s @ scorer_effects w m a pdb_path target_seq_list"
  using assms
  by (simp add: cell2_def assign_def call_score_complex_def lookup_name_def as_model_def
      as_alphabet_def as_str_def as_str_list_def as_strs_PyStr score_complex_def Let_def)

lemma cell2_ok:
  assumes "namespace s ''score_complex'' = Some (PyImported ''models.score_esmif'' ''score_complex'')"
    and "namespace s ''esmif_model'' = Some (PyModel m)"
    and "namespace s ''esmif_alphabet'' = Some (PyAlphabet a)"
    and "scorer w m a pdb_path target_seq_list = Inr r"
  shows "\<exists>s'. run_stmts (cell2 w) s = Inr s'
          \<and> trace s' = trace s @ [ScoreComplex m a pdb_path target_seq_list]
          \<and> sys_path s' = sys_path s \<and> sys_modules s' = sys_modules s
          \<and> out s' = Some (PyTuple [PySize (shape (entropy r)), PyFloat (loss r), PyFloat (perplexity r)])
          \<and> namespace s' ''entropy'' = Some (PyTensor (entropy r))
          \<and> namespace s' ''loss'' = Some (PyFloat (loss r))
          \<and> namespace s' ''perplexity'' = Some (PyFloat (perplexity r))
          \<and> namespace s' ''esmif_model'' = Some (PyModel m)
          \<and> namespace s' ''device'' = namespace s ''device''
          \<and> effects s' = effects s @ scorer_effects w m a pdb_path target_seq_list
          \<and> (\<forall>x. namespace s' x = (namespace s ++ map_of (scoring_bindings r)) x)"
  using assms
  by (simp add: cell2_def assign_def call_score_complex_def lookup_name_def as_model_def
      as_alphabet_def as_str_def as_str_list_def as_strs_PyStr score_complex_def Let_def
      show_result_def shape_of_def scoring_bindings_def map_add_def)


subsection \<open>The whole notebook\<close>

lemma run_notebook_unfold:
  "run_notebook w s =
     (case run_stmts (environment_setup w) s of
        Inl x \<Rightarrow> Inl x
      | Inr s1 \<Rightarrow>
          (case run_stmts (model_loading w) s1 of
             Inl x \<Rightarrow> Inl x
           | Inr s2 \<Rightarrow> run_stmts (cell2 w) s2))"
  by (simp add: run_notebook_def cell1_def cell3_def run_stmts_append split: sum.splits)

lemma run_notebook_cases [consumes 0, case_names setup_fails load_fails move_fails score_fails ok]:
  fixes w :: world and s :: state
  obtains
    (setup_fails) e s1 where
      "run_stmts (environment_setup w) s = Inl (e, s1)"
      "run_notebook w s = Inl (e, s1)"
  | (load_fails) s1 e s' where
      "run_stmts (environment_setup w) s = Inr s1"
      "esm_if1_gvp4_t16_142M_UR50 w = Inl e"
      "run_notebook w s = Inl (e, s')"
      "trace s' = trace s @ setup_events @ take 3 (loading_events w)"
      "sys_path s' = sys_path s @ [''..'']"
      "set (sys_modules s) \<union> set imported_modules \<subseteq> set (sys_modules s')"
      "out s' = out s"
      "sys_modules s' = setup_table w s"
      "effects s' = effects s @ setup_effects w s @ loader_effects w"
  | (move_fails) s1 m a e s' where
      "run_stmts (environment_setup w) s = Inr s1"
      "esm_if1_gvp4_t16_142M_UR50 w = Inr (m, a)"
      "to_error w (module_eval m) (selected_device w) = Some e"
      "run_notebook w s = Inl (e, s')"
      "trace s' = trace s @ setup_events @ loading_events w"
      "sys_path s' = sys_path s @ [''..'']"
      "set (sys_modules s) \<union> set imported_modules \<subseteq> set (sys_modules s')"
      "out s' = out s"
      "sys_modules s' = setup_table w s"
      "effects s' = effects s @ setup_effects w s @ loader_effects w
                    @ transfer_effects w (module_eval m) (selected_device w)"
  | (score_fails) s1 m a e s' where
      "run_stmts (environment_setup w) s = Inr s1"
      "esm_if1_gvp4_t16_142M_UR50 w = Inr (m, a)"
      "to_error w (module_eval m) (selected_device w) = None"
      "scorer w (scoring_model w m) a pdb_path target_seq_list = Inl e"
      "run_notebook w s = Inl (e, s')"
      "trace s' = trace s @ setup_events @ loading_events w
                  @ [ScoreComplex (scoring_model w m) a pdb_path target_seq_list]"
      "sys_path s' = sys_path s @ [''..'']"
      "set (sys_modules s) \<union> set imported_modules \<subseteq> set (sys_modules s')"
      "out s' = out s"
      "namespace s' ''esmif_model'' = Some (PyModel (scoring_model w m))"
      "sys_modules s' = setup_table w s"
      "effects s' = effects s @ setup_effects w s @ loader_effects w
                    @ transfer_effects w (module_eval m) (selected_device w)
                    @ scorer_effects w (scoring_model w m) a pdb_path target_seq_list"
  | (ok) s1 m a r s' where
      "run_stmts (environment_setup w) s = Inr s1"
      "esm_if1_gvp4_t16_142M_UR50 w = Inr (m, a)"
      "to_error w (module_eval m) (selected_device w) = None"
      "scorer w (scoring_model w m) a pdb_path target_seq_list = Inr r"
      "run_notebook w s = Inr s'"
      "trace s' = trace s @ setup_events @ loading_events w
                  @ [ScoreComplex (scoring_model w m) a pdb_path target_seq_list]"
      "sys_path s' = sys_path s @ [''..'']"
      "set (sys_modules s) \<union> set imported_modules \<subseteq> set (sys_modules s')"
      "out s' = Some (PyTuple [PySize (shape (entropy r)), PyFloat (loss r), PyFloat (perplexity r)])"
      "namespace s' ''entropy'' = Some (PyTensor (entropy r))"
      "namespace s' ''loss'' = Some (PyFloat (loss r))"
      "namespace s' ''perplexity'' = Some (PyFloat (perplexity r))"
      "namespace s' ''esmif_model'' = Some (PyModel (scoring_model w m))"
      "namespace s' ''device'' = Some (PyDevice (selected_device w))"
      "sys_modules s' = setup_table w s"
      "effects s' = effects s @ setup_effects w s @ loader_effects w
                    @ transfer_effects w (module_eval m) (selected_device w)
                    @ scorer_effects w (scoring_model w m) a pdb_path target_seq_list"
      "namespace s' = namespace s ++ map_of import_bindings ++ map_of (model_bindings w m a)
                      ++ map_of (scoring_bindings r)"
proof (cases "run_stmts (environment_setup w) s")
  case (Inl x)
  obtain e s1 where x: "x = (e, s1)" by (cases x)
  have "run_notebook w s = Inl (e, s1)"
    using Inl x by (simp add: run_notebook_unfold)
  then show thesis using Inl x setup_fails by simp
next
  case (Inr s1)
  note st = setup_ok [OF Inr]
  have tab: "set (sys_modules s) \<union> set imported_modules \<subseteq> set (sys_modules s1)"
    unfolding st(8) by (rule set_setup_table)
  show thesis
  proof (cases "esm_if1_gvp4_t16_142M_UR50 w")
    case (Inl e)
    from model_loading_load_fails [OF st(2) st(3) Inl]
    obtain s' where s': "run_stmts (model_loading w) s1 = Inl (e, s')"
      "trace s' = trace s1 @ take 3 (loading_events w)"
      "sys_path s' = sys_path s1" "sys_modules s' = sys_modules s1" "out s' = out s1"
      "effects s' = effects s1 @ loader_effects w"
      by blast
    have "run_notebook w s = Inl (e, s')"
      using Inr s'(1) by (simp add: run_notebook_unfold)
    then show thesis
      using load_fails [OF Inr Inl, of s'] s' st(5-9) tab by simp
  next
    case loaded: (Inr ma)
    obtain m a where ma: "ma = (m, a)" by (cases ma)
    have ld: "esm_if1_gvp4_t16_142M_UR50 w = Inr (m, a)" using loaded ma by simp
    show thesis
    proof (cases "to_error w (module_eval m) (selected_device w)")
      case (Some e)
      from model_loading_move_fails [OF st(2) st(3) ld Some]
      obtain s' where s': "run_stmts (model_loading w) s1 = Inl (e, s')"
        "trace s' = trace s1 @ loading_events w"
        "sys_path s' = sys_path s1" "sys_modules s' = sys_modules s1" "out s' = out s1"
        "effects s' = effects s1 @ loader_effects w
                      @ transfer_effects w (module_eval m) (selected_device w)"
        by blast
      have "run_notebook w s = Inl (e, s')"
        using Inr s'(1) by (simp add: run_notebook_unfold)
      then show thesis
        using move_fails [OF Inr ld Some, of s'] s' st(5-9) tab by simp
    next
      case None
      from model_loading_ok [OF st(2) st(3) ld None]
      obtain s2 where s2: "run_stmts (model_loading w) s1 = Inr s2"
        "trace s2 = trace s1 @ loading_events w"
        "sys_path s2 = sys_path s1" "sys_modules s2 = sys_modules s1" "out s2 = out s1"
        "namespace s2 ''device'' = Some (PyDevice (selected_device w))"
        "namespace s2 ''esmif_model'' = Some (PyModel (scoring_model w m))"
        "namespace s2 ''esmif_alphabet'' = Some (PyAlphabet a)"
        "namespace s2 ''score_complex'' = namespace s1 ''score_complex''"
        "effects s2 = effects s1 @ loader_effects w
                      @ transfer_effects w (module_eval m) (selected_device w)"
        "\<forall>x. namespace s2 x = (namespace s1 ++ map_of (model_bindings w m a)) x"
        by blast
      have ns2: "namespace s2 = namespace s ++ map_of import_bindings
                                 ++ map_of (model_bindings w m a)"
        using s2(11) st(10) by (auto intro: ext)
      have sc: "namespace s2 ''score_complex''
                  = Some (PyImported ''models.score_esmif'' ''score_complex'')"
        using s2(9) st(4) by simp
      have unf: "run_notebook w s = run_stmts (cell2 w) s2"
        using Inr s2(1) by (simp add: run_notebook_unfold)
      show thesis
      proof (cases "scorer w (scoring_model w m) a pdb_path target_seq_list")
        case (Inl e)
        from cell2_score_fails [OF sc s2(7) s2(8) Inl]
        obtain s' where s': "run_stmts (cell2 w) s2 = Inl (e, s')"
          "trace s' = trace s2 @ [ScoreComplex (scoring_model w m) a pdb_path target_seq_list]"
          "sys_path s' = sys_path s2" "sys_modules s' = sys_modules s2" "out s' = out s2"
          "namespace s' ''esmif_model'' = Some (PyModel (scoring_model w m))"
          "effects s' = effects s2
                        @ scorer_effects w (scoring_model w m) a pdb_path target_seq_list"
          by blast
        show thesis
          using score_fails [OF \<open>run_stmts (environment_setup w) s = Inr s1\<close> ld None Inl, of s']
            s' s2(2-5,10) st(5-9) tab unf by simp
      next
        case scored: (Inr r)
        from cell2_ok [OF sc s2(7) s2(8) scored]
        obtain s' where s': "run_stmts (cell2 w) s2 = Inr s'"
          "trace s' = trace s2 @ [ScoreComplex (scoring_model w m) a pdb_path target_seq_list]"
          "sys_path s' = sys_path s2" "sys_modules s' = sys_modules s2"
          "out s' = Some (PyTuple [PySize (shape (entropy r)), PyFloat (loss r), PyFloat (perplexity r)])"
          "namespace s' ''entropy'' = Some (PyTensor (entropy r))"
          "namespace s' ''loss'' = Some (PyFloat (loss r))"
          "namespace s' ''perplexity'' = Some (PyFloat (perplexity r))"
          "namespace s' ''esmif_model'' = Some (PyModel (scoring_model w m))"
          "namespace s' ''device'' = namespace s2 ''device''"
          "effects s' = effects s2
                        @ scorer_effects w (scoring_model w m) a pdb_path target_seq_list"
          "\<forall>x. namespace s' x = (namespace s2 ++ map_of (scoring_bindings r)) x"
          by blast
        have ns': "namespace s' = namespace s ++ map_of import_bindings
                                  ++ map_of (model_bindings w m a) ++ map_of (scoring_bindings r)"
          using s'(12) ns2 by (auto intro: ext)
        show thesis
          using ok [OF \<open>run_stmts (environment_setup w) s = Inr s1\<close> ld None scored, of s']
            s'(1-11) s2(2-6,10) st(5-9) tab unf ns' by simp
      qed
    qed
  qed
qed

lemma run_trace_prefix:
  "\<exists>evs. trace (final (run_notebook w s)) = trace s @ evs \<and> is_prefix evs (notebook_events w)"
proof (cases rule: run_notebook_cases [of w s])
  case (setup_fails e s1)
  from setup_raises(2) [OF setup_fails(1)]
  obtain evs where "trace s1 = trace s @ evs" "is_prefix evs setup_events" by blast
  then show ?thesis
    using setup_fails(2) by (auto simp: final_def notebook_events_def intro: is_prefix_append)
next
  case (load_fails s1 e s')
  then show ?thesis
    by (simp add: final_def notebook_events_def)
next
  case (move_fails s1 m a e s')
  then show ?thesis
    by (simp add: final_def notebook_events_def)
next
  case (score_fails s1 m a e s')
  then show ?thesis
    by (simp add: final_def notebook_events_def)
next
  case (ok s1 m a r s')
  then show ?thesis
    by (simp add: final_def notebook_events_def)
qed

lemma run_ok_trace:
  assumes "run_notebook w s = Inr s'"
  shows "\<exists>m a. esm_if1_gvp4_t16_142M_UR50 w = Inr (m, a)
           \<and> trace s' = trace s @ setup_events @ loading_events w
                         @ [ScoreComplex (scoring_model w m) a pdb_path target_seq_list]"
  using assms by (cases rule: run_notebook_cases [of w s]) auto

lemma cell1_ok:
  assumes "run_stmts (environment_setup w) s = Inr s1"
    and "esm_if1_gvp4_t16_142M_UR50 w = Inr (m, a)"
    and "to_error w (module_eval m) (selected_device w) = None"
  shows "\<exists>s2. run_stmts (cell1 w) s = Inr s2
           \<and> namespace s2 ''esmif_model'' = Some (PyModel (scoring_model w m))
           \<and> namespace s2 ''device'' = Some (PyDevice (selected_device w))"
proof -
  note st = setup_ok [OF assms(1)]
  from model_loading_ok [OF st(2) st(3) assms(2) assms(3)]
  obtain s2 where "run_stmts (model_loading w) s1 = Inr s2"
    "namespace s2 ''esmif_model'' = Some (PyModel (scoring_model w m))"
    "namespace s2 ''device'' = Some (PyDevice (selected_device w))"
    by blast
  then show ?thesis
    using assms(1) by (simp add: cell1_def run_stmts_append)
qed

subsection \<open>The example environments\<close>

lemma imports_succeed:
  assumes "\<And>r tab. r \<in> set rs \<Longrightarrow>
             snd (importer w (sys_path s) tab (request_module r) (request_name r)) = None"
  shows "\<exists>s'. run_stmts (map (request_stmt w) rs) s = Inr s'"
  using assms
proof (induction rs arbitrary: s)
  case Nil
  then show ?case by simp
next
  case (Cons r rs)
  have "snd (importer w (sys_path s) (sys_modules s) (request_module r) (request_name r)) = None"
    using Cons.prems by simp
  then obtain ms where
    "importer w (sys_path s) (sys_modules s) (request_module r) (request_name r) = (ms, None)"
    by (metis prod.collapse)
  then obtain s1 where s1: "request_stmt w r s = Inr s1" "sys_path s1 = sys_path s"
    by (auto simp: request_stmt_Inr)
  have "\<exists>s'. run_stmts (map (request_stmt w) rs) s1 = Inr s'"
    using Cons.prems s1(2) by (intro Cons.IH) simp
  then show ?case
    using s1(1) by simp
qed

lemma setup_succeeds:
  assumes "\<And>r tab. r \<in> set first_imports \<Longrightarrow>
             snd (importer w (sys_path s) tab (request_module r) (request_name r)) = None"
    and "\<And>r tab. r \<in> set later_imports \<Longrightarrow>
             snd (importer w (sys_path s @ [''..'']) tab (request_module r) (request_name r)) = None"
  shows "\<exists>s1. run_stmts (environment_setup w) s = Inr s1"
proof -
  from imports_succeed [of first_imports w s] assms(1)
  obtain sa where a: "run_stmts (map (request_stmt w) first_imports) s = Inr sa"
    by blast
  note fa = run_imports_ok [OF a]
  have "namespace sa ''sys'' = Some (PyModule ''sys'')"
    using fa by (simp add: first_imports_bind_sys)
  then obtain sb where b: "sys_path_append ''..'' sa = Inr sb"
    "sys_path sb = sys_path s @ [''..'']"
    using fa by (simp add: sys_path_append_Inr)
  from imports_succeed [of later_imports w sb] assms(2) b(2)
  obtain s1 where c: "run_stmts (map (request_stmt w) later_imports) sb = Inr s1"
    by auto
  show ?thesis
    unfolding environment_setup_requests run_stmts_append_Inr
    using a b(1) c by (auto simp: run_stmts_Cons_Inr simp del: run_stmts.simps(2))
qed

lemma demo_variant_setup:
  assumes "importer w = importer demo_world"
  shows "\<exists>s1. run_stmts (environment_setup w) fresh_kernel = Inr s1"
proof (rule setup_succeeds)
  fix r tab
  assume "r \<in> set first_imports"
  then show "snd (importer w (sys_path fresh_kernel) tab (request_module r) (request_name r))
               = None"
    by (auto simp: assms first_imports_def demo_world_def)
next
  fix r tab
  assume "r \<in> set later_imports"
  then show "snd (importer w (sys_path fresh_kernel @ [''..'']) tab (request_module r)
               (request_name r)) = None"
    by (auto simp: assms later_imports_def demo_world_def fresh_kernel_def)
qed

lemma demo_setup: "\<exists>s1. run_stmts (environment_setup demo_world) fresh_kernel = Inr s1"
  by (rule demo_variant_setup) simp

lemma demo_loader:
  "esm_if1_gvp4_t16_142M_UR50 demo_world = Inr (demo_model, [''L'', ''A'', ''G''])"
  by (simp add: demo_world_def)

lemma demo_move:
  "to_error demo_world (module_eval demo_model) (selected_device demo_world) = None"
  by (simp add: demo_world_def selected_device_def)

lemma demo_score:
  "scorer demo_world (scoring_model demo_world demo_model) [''L'', ''A'', ''G'']
     pdb_path target_seq_list
   = Inr \<lparr>entropy = Tensor [8, 124, 20] [], loss = 5 / 2, perplexity = 12\<rparr>"
  by (simp add: demo_world_def target_seq_list_def)


subsection \<open>Statement by statement\<close>










subsection \<open>What the scoring routine is asked\<close>




subsection \<open>What a run does outside the interpreter\<close>





subsection \<open>The names in the code\<close>


section \<open>The claims\<close>

text \<open>
  C1. Calling \<open>score_complex\<close> with the model, the alphabet, the fixed structure path and
  the list of eight literal sequences returns a 3-tuple of an entropy tensor, a scalar
  loss and a scalar perplexity, and the final expression of the notebook is the shape of
  the entropy tensor together with those two scalars. Stated for every environment in
  which the setup, the loader, the transfer and the scoring routine do not raise: the
  run then completes, the scoring call is its last call, the three names are bound to
  the three parts and the displayed value is the shape with the two scalars.
\<close>

theorem score_complex_result_is_displayed:
  assumes "run_stmts (environment_setup w) s = Inr s1"
    and "esm_if1_gvp4_t16_142M_UR50 w = Inr (m, a)"
    and "to_error w (module_eval m) (selected_device w) = None"
    and "scorer w (scoring_model w m) a pdb_path target_seq_list = Inr r"
  shows "score_complex w (scoring_model w m) a pdb_path target_seq_list
           = Inr (PyTuple [PyTensor (entropy r), PyFloat (loss r), PyFloat (perplexity r)])
         \<and> length target_seq_list = 8
         \<and> (\<exists>s'. run_notebook w s = Inr s'
              \<and> last (trace s') = ScoreComplex (scoring_model w m) a pdb_path target_seq_list
              \<and> namespace s' ''entropy'' = Some (PyTensor (entropy r))
              \<and> namespace s' ''loss'' = Some (PyFloat (loss r))
              \<and> namespace s' ''perplexity'' = Some (PyFloat (perplexity r))
              \<and> out s' = Some (PyTuple [PySize (shape (entropy r)), PyFloat (loss r),
                                         PyFloat (perplexity r)]))"
proof -
  have "score_complex w (scoring_model w m) a pdb_path target_seq_list
           = Inr (PyTuple [PyTensor (entropy r), PyFloat (loss r), PyFloat (perplexity r)])"
    using assms(4) by (simp add: score_complex_def)
  moreover have "length target_seq_list = 8"
    by (simp add: target_seq_list_def)
  moreover have "\<exists>s'. run_notebook w s = Inr s'
              \<and> last (trace s') = ScoreComplex (scoring_model w m) a pdb_path target_seq_list
              \<and> namespace s' ''entropy'' = Some (PyTensor (entropy r))
              \<and> namespace s' ''loss'' = Some (PyFloat (loss r))
              \<and> namespace s' ''perplexity'' = Some (PyFloat (perplexity r))
              \<and> out s' = Some (PyTuple [PySize (shape (entropy r)), PyFloat (loss r),
                                         PyFloat (perplexity r)])"
    using assms by (cases rule: run_notebook_cases [of w s]) auto
  ultimately show ?thesis by blast
qed

theorem score_complex_result_is_displayed_witness:
  "\<exists>s'. run_notebook demo_world fresh_kernel = Inr s'
     \<and> out s' = Some (PyTuple [PySize [8, 124, 20], PyFloat (5 / 2), PyFloat 12])"
proof -
  obtain s1 where s1: "run_stmts (environment_setup demo_world) fresh_kernel = Inr s1"
    using demo_setup by blast
  show ?thesis
    using score_complex_result_is_displayed [OF s1 demo_loader demo_move demo_score] by auto
qed

text \<open>
  C2. The execution of the notebook consists, in this order, of the environment setup
  and the loading of the pretrained model, exactly one call of \<open>score_complex\<close> over one
  fixed structure path and a literal list of exactly eight sequences, and a sampling
  loop that is entirely commented out; nothing else is performed. The calls of every
  run are an initial part of \<open>notebook_events\<close>. A run completes exactly when the setup,
  the loader, the transfer and the scoring routine do not raise, and the state it ends
  in is then fixed in every field: the calls made, the names bound (those of the
  imports, of the loaded model and of the scoring, the latter taken from what the
  scoring routine returned), the displayed value, the search path, the module table
  and what was done outside the interpreter. So nothing is performed besides the
  setup, the loading and the one scoring call, and every line of the third cell is a
  comment or blank.
\<close>

theorem notebook_execution_order:
  "(\<exists>evs. trace (final (run_notebook w s)) = trace s @ evs \<and> is_prefix evs (notebook_events w))
   \<and> (\<forall>s'. run_notebook w s = Inr s' \<longrightarrow>
         (\<exists>s1 m a r. run_stmts (environment_setup w) s = Inr s1
            \<and> esm_if1_gvp4_t16_142M_UR50 w = Inr (m, a)
            \<and> to_error w (module_eval m) (selected_device w) = None
            \<and> scorer w (scoring_model w m) a pdb_path target_seq_list = Inr r
            \<and> trace s' = trace s @ setup_events @ loading_events w
                          @ [ScoreComplex (scoring_model w m) a pdb_path target_seq_list]
            \<and> namespace s' = namespace s ++ map_of import_bindings
                              ++ map_of (model_bindings w m a) ++ map_of (scoring_bindings r)
            \<and> out s' = Some (PyTuple [PySize (shape (entropy r)), PyFloat (loss r),
                                       PyFloat (perplexity r)])
            \<and> sys_path s' = sys_path s @ [''..'']
            \<and> sys_modules s' = setup_table w s
            \<and> effects s' = effects s @ setup_effects w s @ loader_effects w
                            @ transfer_effects w (module_eval m) (selected_device w)
                            @ scorer_effects w (scoring_model w m) a pdb_path target_seq_list))
   \<and> (\<forall>s1 m a r. run_stmts (environment_setup w) s = Inr s1
          \<and> esm_if1_gvp4_t16_142M_UR50 w = Inr (m, a)
          \<and> to_error w (module_eval m) (selected_device w) = None
          \<and> scorer w (scoring_model w m) a pdb_path target_seq_list = Inr r \<longrightarrow>
        (\<exists>s'. run_notebook w s = Inr s'))
   \<and> length (filter is_score_call (notebook_events w)) \<le> 1
   \<and> length target_seq_list = 8
   \<and> list_all (\<lambda>l. is_blank l \<or> is_comment l) cell3_source"
proof (intro conjI allI impI)
  show "\<exists>evs. trace (final (run_notebook w s)) = trace s @ evs \<and> is_prefix evs (notebook_events w)"
    by (rule run_trace_prefix)
  show "length (filter is_score_call (notebook_events w)) \<le> 1"
    by (simp add: notebook_events_def setup_events_def loading_events_def split: sum.splits)
  show "length target_seq_list = 8"
    by (simp add: target_seq_list_def)
  show "list_all (\<lambda>l. is_blank l \<or> is_comment l) cell3_source"
    by code_simp
next
  fix s'
  assume "run_notebook w s = Inr s'"
  then show "\<exists>s1 m a r. run_stmts (environment_setup w) s = Inr s1
            \<and> esm_if1_gvp4_t16_142M_UR50 w = Inr (m, a)
            \<and> to_error w (module_eval m) (selected_device w) = None
            \<and> scorer w (scoring_model w m) a pdb_path target_seq_list = Inr r
            \<and> trace s' = trace s @ setup_events @ loading_events w
                          @ [ScoreComplex (scoring_model w m) a pdb_path target_seq_list]
            \<and> namespace s' = namespace s ++ map_of import_bindings
                              ++ map_of (model_bindings w m a) ++ map_of (scoring_bindings r)
            \<and> out s' = Some (PyTuple [PySize (shape (entropy r)), PyFloat (loss r),
                                       PyFloat (perplexity r)])
            \<and> sys_path s' = sys_path s @ [''..'']
            \<and> sys_modules s' = setup_table w s
            \<and> effects s' = effects s @ setup_effects w s @ loader_effects w
                            @ transfer_effects w (module_eval m) (selected_device w)
                            @ scorer_effects w (scoring_model w m) a pdb_path target_seq_list"
    by (cases rule: run_notebook_cases [of w s]) auto
next
  fix s1 m a r
  assume "run_stmts (environment_setup w) s = Inr s1
          \<and> esm_if1_gvp4_t16_142M_UR50 w = Inr (m, a)
          \<and> to_error w (module_eval m) (selected_device w) = None
          \<and> scorer w (scoring_model w m) a pdb_path target_seq_list = Inr r"
  then show "\<exists>s'. run_notebook w s = Inr s'"
    by (cases rule: run_notebook_cases [of w s]) auto
qed

theorem notebook_execution_order_witness:
  "\<exists>s'. run_notebook demo_world fresh_kernel = Inr s'
     \<and> trace s' = setup_events @ loading_events demo_world
         @ [ScoreComplex (scoring_model demo_world demo_model) [''L'', ''A'', ''G'']
              pdb_path target_seq_list]
     \<and> namespace s' ''entropy'' = Some (PyTensor (Tensor [8, 124, 20] []))
     \<and> namespace s' ''os'' = Some (PyModule ''os'')
     \<and> namespace s' ''argv'' = None
     \<and> sys_path s' = [''/opt/kernel/lib'', ''..'']"
proof -
  obtain s1 where s1: "run_stmts (environment_setup demo_world) fresh_kernel = Inr s1"
    using demo_setup by blast
  obtain s' where s': "run_notebook demo_world fresh_kernel = Inr s'"
    using notebook_execution_order [of demo_world fresh_kernel] s1 demo_loader demo_move
      demo_score by blast
  then show ?thesis
    using notebook_execution_order [of demo_world fresh_kernel] demo_loader demo_score
    by (auto simp: fresh_kernel_def import_bindings_def model_bindings_def
        scoring_bindings_def map_add_def)
qed

text \<open>
  C3. During any execution of the notebook \<open>sample_complex\<close> is never invoked: it is
  imported, and every call of it lies inside the commented-out sampling loop. No run,
  completed or not, makes a sampling call, and every line of the notebook that mentions
  \<open>sample_complex\<close> is either a comment or the import statement.
\<close>

theorem sample_complex_never_invoked:
  "(\<exists>evs. trace (final (run_notebook w s)) = trace s @ evs
         \<and> list_all (\<lambda>ev. \<not> is_sample_call ev) evs)
   \<and> list_all (\<lambda>l. mentions ''sample_complex'' l \<longrightarrow>
                  is_comment l \<or> l = ''from models.sample_esmif import sample_complex'')
        notebook_source"
proof -
  obtain evs where evs: "trace (final (run_notebook w s)) = trace s @ evs"
    "is_prefix evs (notebook_events w)"
    using run_trace_prefix by blast
  have "list_all (\<lambda>ev. \<not> is_sample_call ev) (notebook_events w)"
    by (simp add: notebook_events_def setup_events_def loading_events_def split: sum.splits)
  with evs(2) have "list_all (\<lambda>ev. \<not> is_sample_call ev) evs"
    by (rule is_prefix_list_all)
  moreover have "list_all (\<lambda>l. mentions ''sample_complex'' l \<longrightarrow>
                  is_comment l \<or> l = ''from models.sample_esmif import sample_complex'')
        notebook_source"
    by code_simp
  ultimately show ?thesis using evs(1) by blast
qed

theorem sample_complex_never_invoked_witness:
  "list_all (\<lambda>ev. \<not> is_sample_call ev)
     (trace (final (run_notebook missing_structure_world fresh_kernel)))"
  using sample_complex_never_invoked [of missing_structure_world fresh_kernel]
  by (auto simp: fresh_kernel_def)



text \<open>
  C5. The pretrained network passed to the scoring call is frozen: before
  \<open>score_complex\<close> is called the model is put in evaluation mode and moved to the
  selected device, and nothing in the notebook changes its mode or parameters
  afterwards. When the setup, the loader and the transfer do not raise, the first cell
  binds \<open>esmif_model\<close> to the loaded network with the training flag cleared, on the
  selected device and with the loaded weights; that network is the argument of the
  scoring call, and \<open>esmif_model\<close> is still bound to it when the run ends.
\<close>

theorem scoring_model_is_frozen:
  assumes "run_stmts (environment_setup w) s = Inr s1"
    and "esm_if1_gvp4_t16_142M_UR50 w = Inr (m, a)"
    and "to_error w (module_eval m) (selected_device w) = None"
  shows "training (scoring_model w m) = False
     \<and> on_device (scoring_model w m) = (if cuda_is_available w then Cuda else Cpu)
     \<and> weights (scoring_model w m) = weights m
     \<and> (\<exists>s2. run_stmts (cell1 w) s = Inr s2
           \<and> namespace s2 ''esmif_model'' = Some (PyModel (scoring_model w m))
           \<and> namespace s2 ''device'' = Some (PyDevice (on_device (scoring_model w m))))
     \<and> last (trace (final (run_notebook w s)))
         = ScoreComplex (scoring_model w m) a pdb_path target_seq_list
     \<and> namespace (final (run_notebook w s)) ''esmif_model'' = Some (PyModel (scoring_model w m))"
proof -
  have "last (trace (final (run_notebook w s)))
         = ScoreComplex (scoring_model w m) a pdb_path target_seq_list
     \<and> namespace (final (run_notebook w s)) ''esmif_model'' = Some (PyModel (scoring_model w m))"
    using assms by (cases rule: run_notebook_cases [of w s]) (auto simp: final_def)
  then show ?thesis
    using cell1_ok [OF assms] by (simp add: scoring_model_def selected_device_def)
qed

theorem scoring_model_is_frozen_witness:
  "last (trace (final (run_notebook demo_world fresh_kernel)))
     = ScoreComplex \<lparr>weights = [142, 16, 4], training = False, on_device = Cpu\<rparr>
         [''L'', ''A'', ''G''] pdb_path target_seq_list"
proof -
  obtain s1 where s1: "run_stmts (environment_setup demo_world) fresh_kernel = Inr s1"
    using demo_setup by blast
  show ?thesis
    using scoring_model_is_frozen [OF s1 demo_loader demo_move]
    by (simp add: scoring_model_def selected_device_def demo_world_def demo_model_def)
qed









text \<open>
  C9. The device for the model is chosen by a total fallback rule: it is the CUDA
  device exactly when \<open>torch.cuda.is_available()\<close> returns true and the CPU device
  otherwise, so the selection itself never fails for lack of a GPU. After the setup the
  statement that assigns \<open>device\<close> always completes, and binds the CUDA device if and
  only if the query answers true, the CPU device if and only if it answers false.
\<close>

theorem device_selection_total:
  assumes "run_stmts (environment_setup w) s = Inr s1"
  shows "\<exists>s2. assign_device w s1 = Inr s2
           \<and> namespace s2 ''device'' = Some (PyDevice (if cuda_is_available w then Cuda else Cpu))
           \<and> (namespace s2 ''device'' = Some (PyDevice Cuda) \<longleftrightarrow> cuda_is_available w)
           \<and> (namespace s2 ''device'' = Some (PyDevice Cpu) \<longleftrightarrow> \<not> cuda_is_available w)"
  using setup_ok(2) [OF assms]
  by (simp add: assign_device_run selected_device_def)

theorem device_selection_total_witness:
  "\<exists>s1 s2. run_stmts (environment_setup demo_world) fresh_kernel = Inr s1
      \<and> assign_device demo_world s1 = Inr s2
      \<and> namespace s2 ''device'' = Some (PyDevice Cpu)"
proof -
  obtain s1 where s1: "run_stmts (environment_setup demo_world) fresh_kernel = Inr s1"
    using demo_setup by blast
  have "\<not> cuda_is_available demo_world"
    by (simp add: demo_world_def)
  then show ?thesis
    using device_selection_total [OF s1] s1 by auto
qed

text \<open>
  C10. In the literal eight-element \<open>target_seq_list\<close> passed to \<open>score_complex\<close>, every
  string has the same length, 124 characters, and the list contains a duplicate: its
  first element (index 0) and its sixth element (index 5) are identical strings.
\<close>

theorem target_seq_list_lengths_and_duplicate:
  "length target_seq_list = 8
   \<and> list_all (\<lambda>q. length q = 124) target_seq_list
   \<and> target_seq_list ! 0 = target_seq_list ! 5
   \<and> \<not> distinct target_seq_list"
  by code_simp

end
